theory Spec2Isabelle
  imports Main "HOL-Library.Word"
begin

unbundle bit_operations_syntax

section \<open>Common types and kernel status codes\<close>

text \<open>
  The drivers are C. Unsigned 32-bit and 64-bit quantities are words; a status
  code is the C \<open>int\<close> the functions return (0, or a negated errno).
\<close>

type_synonym u32 = "32 word"
type_synonym u64 = "64 word"

definition EINVAL :: int where "EINVAL = 22"
definition EBUSY :: int where "EBUSY = 16"
definition ENOMEM :: int where "ENOMEM = 12"
definition ENXIO :: int where "ENXIO = 6"

section \<open>Video format table (xilinx-vip.c)\<close>

text \<open>
  The table \<open>xvip_video_formats\<close> names its video-format codes, media bus codes
  and 4CCs through macros of headers that are not part of the sources at hand.
  The names are kept as constructors; the numeric value of a media bus code or
  of a 4CC is a parameter of the lookup functions. A \<open>flavor\<close> of 0 and a
  \<open>pattern\<close> of NULL are \<open>None\<close>.
\<close>

datatype xvip_vf_code =
  XVIP_VF_YUV_420 | XVIP_VF_YUV_422 | XVIP_VF_VUY_422 | XVIP_VF_YUV_444 | XVIP_VF_YUVX
  | XVIP_VF_RBG | XVIP_VF_BGRX | XVIP_VF_XRGB | XVIP_VF_XBGR | XVIP_VF_MONO_SENSOR
  | XVIP_VF_Y_GREY

datatype media_bus_fmt =
  MEDIA_BUS_FMT_VYYUYY8_1X24 | MEDIA_BUS_FMT_VYYUYY10_4X20 | MEDIA_BUS_FMT_UYYVYY12_4X24
  | MEDIA_BUS_FMT_UYYVYY16_4X32 | MEDIA_BUS_FMT_UYVY8_1X16 | MEDIA_BUS_FMT_UYVY10_1X20
  | MEDIA_BUS_FMT_UYVY12_1X24 | MEDIA_BUS_FMT_UYVY16_2X32 | MEDIA_BUS_FMT_VUY8_1X24
  | MEDIA_BUS_FMT_VUY10_1X30 | MEDIA_BUS_FMT_VUY12_1X36 | MEDIA_BUS_FMT_VUY16_1X48
  | MEDIA_BUS_FMT_RBG888_1X24 | MEDIA_BUS_FMT_RBG101010_1X30
  | MEDIA_BUS_FMT_RBG121212_1X36 | MEDIA_BUS_FMT_RBG161616_1X48 | MEDIA_BUS_FMT_Y8_1X8
  | MEDIA_BUS_FMT_Y10_1X10 | MEDIA_BUS_FMT_Y12_1X12 | MEDIA_BUS_FMT_Y16_1X16
  | MEDIA_BUS_FMT_SRGGB8_1X8 | MEDIA_BUS_FMT_SGRBG8_1X8 | MEDIA_BUS_FMT_SGBRG8_1X8
  | MEDIA_BUS_FMT_SBGGR8_1X8 | MEDIA_BUS_FMT_SRGGB10_1X10 | MEDIA_BUS_FMT_SGRBG10_1X10
  | MEDIA_BUS_FMT_SGBRG10_1X10 | MEDIA_BUS_FMT_SBGGR10_1X10 | MEDIA_BUS_FMT_SRGGB12_1X12
  | MEDIA_BUS_FMT_SGRBG12_1X12 | MEDIA_BUS_FMT_SGBRG12_1X12 | MEDIA_BUS_FMT_SBGGR12_1X12
  | MEDIA_BUS_FMT_SRGGB16_1X16 | MEDIA_BUS_FMT_SGRBG16_1X16 | MEDIA_BUS_FMT_SGBRG16_1X16
  | MEDIA_BUS_FMT_SBGGR16_1X16

datatype v4l2_pix_fmt =
  V4L2_PIX_FMT_NV12 | V4L2_PIX_FMT_NV12M | V4L2_PIX_FMT_XV15 | V4L2_PIX_FMT_XV15M
  | V4L2_PIX_FMT_X012 | V4L2_PIX_FMT_X012M | V4L2_PIX_FMT_X016 | V4L2_PIX_FMT_X016M
  | V4L2_PIX_FMT_NV16 | V4L2_PIX_FMT_NV16M | V4L2_PIX_FMT_YUYV | V4L2_PIX_FMT_UYVY
  | V4L2_PIX_FMT_XV20 | V4L2_PIX_FMT_XV20M | V4L2_PIX_FMT_X212 | V4L2_PIX_FMT_X212M
  | V4L2_PIX_FMT_X216 | V4L2_PIX_FMT_X216M | V4L2_PIX_FMT_VUY24 | V4L2_PIX_FMT_XVUY32
  | V4L2_PIX_FMT_XVUY10 | V4L2_PIX_FMT_X412 | V4L2_PIX_FMT_X412M | V4L2_PIX_FMT_X416
  | V4L2_PIX_FMT_X416M | V4L2_PIX_FMT_BGR24 | V4L2_PIX_FMT_RGB24 | V4L2_PIX_FMT_BGRX32
  | V4L2_PIX_FMT_XBGR32 | V4L2_PIX_FMT_XBGR30 | V4L2_PIX_FMT_XBGR40 | V4L2_PIX_FMT_BGR48
  | V4L2_PIX_FMT_GREY | V4L2_PIX_FMT_XY10 | V4L2_PIX_FMT_XY12 | V4L2_PIX_FMT_Y16
  | V4L2_PIX_FMT_SGRBG8 | V4L2_PIX_FMT_SGBRG8 | V4L2_PIX_FMT_SBGGR8
  | V4L2_PIX_FMT_SRGGB10 | V4L2_PIX_FMT_SGRBG10 | V4L2_PIX_FMT_SGBRG10
  | V4L2_PIX_FMT_SBGGR10 | V4L2_PIX_FMT_SRGGB12 | V4L2_PIX_FMT_SGRBG12
  | V4L2_PIX_FMT_SGBRG12 | V4L2_PIX_FMT_SBGGR12 | V4L2_PIX_FMT_SRGGB16
  | V4L2_PIX_FMT_SGRBG16 | V4L2_PIX_FMT_SGBRG16 | V4L2_PIX_FMT_SBGGR16


record xvip_video_format =
  vf_code :: xvip_vf_code
  width :: nat
  pattern :: "string option"
  code :: media_bus_fmt
  flavor :: "media_bus_fmt option"
  bpl_factor :: nat
  bits_per_pixel :: nat
  bpl_scaling :: "nat \<times> nat"
  fourcc :: v4l2_pix_fmt
  num_planes :: nat
  buffers :: nat
  hsub :: nat
  vsub :: nat

definition xvip_video_formats :: "xvip_video_format list" where
  "xvip_video_formats = [
    \<lparr>vf_code = XVIP_VF_YUV_420, width = 8, pattern = None,
      code = MEDIA_BUS_FMT_VYYUYY8_1X24, flavor = None,
      bpl_factor = 1, bits_per_pixel = 12, bpl_scaling = (1, 1),
      fourcc = V4L2_PIX_FMT_NV12, num_planes = 2, buffers = 1, hsub = 1, vsub = 2\<rparr>,
    \<lparr>vf_code = XVIP_VF_YUV_420, width = 8, pattern = None,
      code = MEDIA_BUS_FMT_VYYUYY8_1X24, flavor = None,
      bpl_factor = 1, bits_per_pixel = 12, bpl_scaling = (1, 1),
      fourcc = V4L2_PIX_FMT_NV12M, num_planes = 2, buffers = 2, hsub = 1, vsub = 2\<rparr>,
    \<lparr>vf_code = XVIP_VF_YUV_420, width = 10, pattern = None,
      code = MEDIA_BUS_FMT_VYYUYY10_4X20, flavor = None,
      bpl_factor = 1, bits_per_pixel = 12, bpl_scaling = (4, 3),
      fourcc = V4L2_PIX_FMT_XV15, num_planes = 2, buffers = 1, hsub = 2, vsub = 2\<rparr>,
    \<lparr>vf_code = XVIP_VF_YUV_420, width = 10, pattern = None,
      code = MEDIA_BUS_FMT_VYYUYY10_4X20, flavor = None,
      bpl_factor = 1, bits_per_pixel = 12, bpl_scaling = (4, 3),
      fourcc = V4L2_PIX_FMT_XV15M, num_planes = 2, buffers = 2, hsub = 1, vsub = 2\<rparr>,
    \<lparr>vf_code = XVIP_VF_YUV_420, width = 12, pattern = None,
      code = MEDIA_BUS_FMT_UYYVYY12_4X24, flavor = None,
      bpl_factor = 1, bits_per_pixel = 12, bpl_scaling = (5, 3),
      fourcc = V4L2_PIX_FMT_X012, num_planes = 2, buffers = 1, hsub = 2, vsub = 2\<rparr>,
    \<lparr>vf_code = XVIP_VF_YUV_420, width = 12, pattern = None,
      code = MEDIA_BUS_FMT_UYYVYY12_4X24, flavor = None,
      bpl_factor = 1, bits_per_pixel = 12, bpl_scaling = (5, 3),
      fourcc = V4L2_PIX_FMT_X012M, num_planes = 2, buffers = 2, hsub = 1, vsub = 2\<rparr>,
    \<lparr>vf_code = XVIP_VF_YUV_420, width = 16, pattern = None,
      code = MEDIA_BUS_FMT_UYYVYY16_4X32, flavor = None,
      bpl_factor = 2, bits_per_pixel = 12, bpl_scaling = (1, 1),
      fourcc = V4L2_PIX_FMT_X016, num_planes = 2, buffers = 1, hsub = 2, vsub = 2\<rparr>,
    \<lparr>vf_code = XVIP_VF_YUV_420, width = 16, pattern = None,
      code = MEDIA_BUS_FMT_UYYVYY16_4X32, flavor = None,
      bpl_factor = 2, bits_per_pixel = 12, bpl_scaling = (1, 1),
      fourcc = V4L2_PIX_FMT_X016M, num_planes = 2, buffers = 2, hsub = 1, vsub = 2\<rparr>,
    \<lparr>vf_code = XVIP_VF_YUV_422, width = 8, pattern = None,
      code = MEDIA_BUS_FMT_UYVY8_1X16, flavor = None,
      bpl_factor = 1, bits_per_pixel = 16, bpl_scaling = (1, 1),
      fourcc = V4L2_PIX_FMT_NV16, num_planes = 2, buffers = 1, hsub = 1, vsub = 1\<rparr>,
    \<lparr>vf_code = XVIP_VF_YUV_422, width = 8, pattern = None,
      code = MEDIA_BUS_FMT_UYVY8_1X16, flavor = None,
      bpl_factor = 1, bits_per_pixel = 16, bpl_scaling = (1, 1),
      fourcc = V4L2_PIX_FMT_NV16M, num_planes = 2, buffers = 2, hsub = 1, vsub = 1\<rparr>,
    \<lparr>vf_code = XVIP_VF_YUV_422, width = 8, pattern = None,
      code = MEDIA_BUS_FMT_UYVY8_1X16, flavor = None,
      bpl_factor = 2, bits_per_pixel = 16, bpl_scaling = (1, 1),
      fourcc = V4L2_PIX_FMT_YUYV, num_planes = 1, buffers = 1, hsub = 2, vsub = 1\<rparr>,
    \<lparr>vf_code = XVIP_VF_VUY_422, width = 8, pattern = None,
      code = MEDIA_BUS_FMT_UYVY8_1X16, flavor = None,
      bpl_factor = 2, bits_per_pixel = 16, bpl_scaling = (1, 1),
      fourcc = V4L2_PIX_FMT_UYVY, num_planes = 1, buffers = 1, hsub = 2, vsub = 1\<rparr>,
    \<lparr>vf_code = XVIP_VF_YUV_422, width = 10, pattern = None,
      code = MEDIA_BUS_FMT_UYVY10_1X20, flavor = None,
      bpl_factor = 1, bits_per_pixel = 16, bpl_scaling = (4, 3),
      fourcc = V4L2_PIX_FMT_XV20, num_planes = 2, buffers = 1, hsub = 2, vsub = 1\<rparr>,
    \<lparr>vf_code = XVIP_VF_YUV_422, width = 10, pattern = None,
      code = MEDIA_BUS_FMT_UYVY10_1X20, flavor = None,
      bpl_factor = 1, bits_per_pixel = 16, bpl_scaling = (4, 3),
      fourcc = V4L2_PIX_FMT_XV20M, num_planes = 2, buffers = 2, hsub = 1, vsub = 1\<rparr>,
    \<lparr>vf_code = XVIP_VF_YUV_422, width = 12, pattern = None,
      code = MEDIA_BUS_FMT_UYVY12_1X24, flavor = None,
      bpl_factor = 1, bits_per_pixel = 16, bpl_scaling = (5, 3),
      fourcc = V4L2_PIX_FMT_X212, num_planes = 2, buffers = 1, hsub = 2, vsub = 1\<rparr>,
    \<lparr>vf_code = XVIP_VF_YUV_422, width = 12, pattern = None,
      code = MEDIA_BUS_FMT_UYVY12_1X24, flavor = None,
      bpl_factor = 1, bits_per_pixel = 16, bpl_scaling = (5, 3),
      fourcc = V4L2_PIX_FMT_X212M, num_planes = 2, buffers = 2, hsub = 1, vsub = 1\<rparr>,
    \<lparr>vf_code = XVIP_VF_YUV_422, width = 16, pattern = None,
      code = MEDIA_BUS_FMT_UYVY16_2X32, flavor = None,
      bpl_factor = 2, bits_per_pixel = 16, bpl_scaling = (1, 1),
      fourcc = V4L2_PIX_FMT_X216, num_planes = 2, buffers = 1, hsub = 2, vsub = 1\<rparr>,
    \<lparr>vf_code = XVIP_VF_YUV_422, width = 16, pattern = None,
      code = MEDIA_BUS_FMT_UYVY16_2X32, flavor = None,
      bpl_factor = 2, bits_per_pixel = 16, bpl_scaling = (1, 1),
      fourcc = V4L2_PIX_FMT_X216M, num_planes = 2, buffers = 2, hsub = 1, vsub = 1\<rparr>,
    \<lparr>vf_code = XVIP_VF_YUV_444, width = 8, pattern = None,
      code = MEDIA_BUS_FMT_VUY8_1X24, flavor = None,
      bpl_factor = 3, bits_per_pixel = 24, bpl_scaling = (1, 1),
      fourcc = V4L2_PIX_FMT_VUY24, num_planes = 1, buffers = 1, hsub = 1, vsub = 1\<rparr>,
    \<lparr>vf_code = XVIP_VF_YUVX, width = 8, pattern = None,
      code = MEDIA_BUS_FMT_VUY8_1X24, flavor = None,
      bpl_factor = 4, bits_per_pixel = 32, bpl_scaling = (1, 1),
      fourcc = V4L2_PIX_FMT_XVUY32, num_planes = 1, buffers = 1, hsub = 1, vsub = 1\<rparr>,
    \<lparr>vf_code = XVIP_VF_YUVX, width = 10, pattern = None,
      code = MEDIA_BUS_FMT_VUY10_1X30, flavor = None,
      bpl_factor = 3, bits_per_pixel = 32, bpl_scaling = (4, 3),
      fourcc = V4L2_PIX_FMT_XVUY10, num_planes = 1, buffers = 1, hsub = 1, vsub = 1\<rparr>,
    \<lparr>vf_code = XVIP_VF_YUV_444, width = 12, pattern = None,
      code = MEDIA_BUS_FMT_VUY12_1X36, flavor = None,
      bpl_factor = 1, bits_per_pixel = 24, bpl_scaling = (5, 3),
      fourcc = V4L2_PIX_FMT_X412, num_planes = 1, buffers = 1, hsub = 1, vsub = 1\<rparr>,
    \<lparr>vf_code = XVIP_VF_YUV_444, width = 12, pattern = None,
      code = MEDIA_BUS_FMT_VUY12_1X36, flavor = None,
      bpl_factor = 1, bits_per_pixel = 24, bpl_scaling = (5, 3),
      fourcc = V4L2_PIX_FMT_X412M, num_planes = 1, buffers = 1, hsub = 1, vsub = 1\<rparr>,
    \<lparr>vf_code = XVIP_VF_YUV_444, width = 16, pattern = None,
      code = MEDIA_BUS_FMT_VUY16_1X48, flavor = None,
      bpl_factor = 2, bits_per_pixel = 24, bpl_scaling = (1, 1),
      fourcc = V4L2_PIX_FMT_X416, num_planes = 1, buffers = 1, hsub = 1, vsub = 1\<rparr>,
    \<lparr>vf_code = XVIP_VF_YUV_444, width = 16, pattern = None,
      code = MEDIA_BUS_FMT_VUY16_1X48, flavor = None,
      bpl_factor = 2, bits_per_pixel = 24, bpl_scaling = (1, 1),
      fourcc = V4L2_PIX_FMT_X416M, num_planes = 1, buffers = 1, hsub = 1, vsub = 1\<rparr>,
    \<lparr>vf_code = XVIP_VF_RBG, width = 8, pattern = None,
      code = MEDIA_BUS_FMT_RBG888_1X24, flavor = None,
      bpl_factor = 3, bits_per_pixel = 24, bpl_scaling = (1, 1),
      fourcc = V4L2_PIX_FMT_BGR24, num_planes = 1, buffers = 1, hsub = 1, vsub = 1\<rparr>,
    \<lparr>vf_code = XVIP_VF_RBG, width = 8, pattern = None,
      code = MEDIA_BUS_FMT_RBG888_1X24, flavor = None,
      bpl_factor = 3, bits_per_pixel = 24, bpl_scaling = (1, 1),
      fourcc = V4L2_PIX_FMT_RGB24, num_planes = 1, buffers = 1, hsub = 1, vsub = 1\<rparr>,
    \<lparr>vf_code = XVIP_VF_BGRX, width = 8, pattern = None,
      code = MEDIA_BUS_FMT_RBG888_1X24, flavor = None,
      bpl_factor = 4, bits_per_pixel = 32, bpl_scaling = (1, 1),
      fourcc = V4L2_PIX_FMT_BGRX32, num_planes = 1, buffers = 1, hsub = 1, vsub = 1\<rparr>,
    \<lparr>vf_code = XVIP_VF_XRGB, width = 8, pattern = None,
      code = MEDIA_BUS_FMT_RBG888_1X24, flavor = None,
      bpl_factor = 4, bits_per_pixel = 32, bpl_scaling = (1, 1),
      fourcc = V4L2_PIX_FMT_XBGR32, num_planes = 1, buffers = 1, hsub = 1, vsub = 1\<rparr>,
    \<lparr>vf_code = XVIP_VF_XBGR, width = 10, pattern = None,
      code = MEDIA_BUS_FMT_RBG101010_1X30, flavor = None,
      bpl_factor = 3, bits_per_pixel = 32, bpl_scaling = (4, 3),
      fourcc = V4L2_PIX_FMT_XBGR30, num_planes = 1, buffers = 1, hsub = 1, vsub = 1\<rparr>,
    \<lparr>vf_code = XVIP_VF_XBGR, width = 12, pattern = None,
      code = MEDIA_BUS_FMT_RBG121212_1X36, flavor = None,
      bpl_factor = 3, bits_per_pixel = 40, bpl_scaling = (5, 3),
      fourcc = V4L2_PIX_FMT_XBGR40, num_planes = 1, buffers = 1, hsub = 1, vsub = 1\<rparr>,
    \<lparr>vf_code = XVIP_VF_RBG, width = 16, pattern = None,
      code = MEDIA_BUS_FMT_RBG161616_1X48, flavor = None,
      bpl_factor = 6, bits_per_pixel = 48, bpl_scaling = (1, 1),
      fourcc = V4L2_PIX_FMT_BGR48, num_planes = 1, buffers = 1, hsub = 1, vsub = 1\<rparr>,
    \<lparr>vf_code = XVIP_VF_MONO_SENSOR, width = 8, pattern = Some ''mono'',
      code = MEDIA_BUS_FMT_Y8_1X8, flavor = Some MEDIA_BUS_FMT_Y8_1X8,
      bpl_factor = 1, bits_per_pixel = 8, bpl_scaling = (1, 1),
      fourcc = V4L2_PIX_FMT_GREY, num_planes = 1, buffers = 1, hsub = 1, vsub = 1\<rparr>,
    \<lparr>vf_code = XVIP_VF_Y_GREY, width = 10, pattern = None,
      code = MEDIA_BUS_FMT_Y10_1X10, flavor = Some MEDIA_BUS_FMT_Y8_1X8,
      bpl_factor = 1, bits_per_pixel = 32, bpl_scaling = (4, 3),
      fourcc = V4L2_PIX_FMT_XY10, num_planes = 1, buffers = 1, hsub = 1, vsub = 1\<rparr>,
    \<lparr>vf_code = XVIP_VF_Y_GREY, width = 12, pattern = None,
      code = MEDIA_BUS_FMT_Y12_1X12, flavor = Some MEDIA_BUS_FMT_Y8_1X8,
      bpl_factor = 1, bits_per_pixel = 12, bpl_scaling = (5, 3),
      fourcc = V4L2_PIX_FMT_XY12, num_planes = 1, buffers = 1, hsub = 1, vsub = 1\<rparr>,
    \<lparr>vf_code = XVIP_VF_Y_GREY, width = 16, pattern = None,
      code = MEDIA_BUS_FMT_Y16_1X16, flavor = Some MEDIA_BUS_FMT_Y8_1X8,
      bpl_factor = 2, bits_per_pixel = 16, bpl_scaling = (1, 1),
      fourcc = V4L2_PIX_FMT_Y16, num_planes = 1, buffers = 1, hsub = 1, vsub = 1\<rparr>,
    \<lparr>vf_code = XVIP_VF_MONO_SENSOR, width = 8, pattern = Some ''rggb'',
      code = MEDIA_BUS_FMT_SRGGB8_1X8, flavor = Some MEDIA_BUS_FMT_SRGGB8_1X8,
      bpl_factor = 1, bits_per_pixel = 8, bpl_scaling = (1, 1),
      fourcc = V4L2_PIX_FMT_SGRBG8, num_planes = 1, buffers = 1, hsub = 1, vsub = 1\<rparr>,
    \<lparr>vf_code = XVIP_VF_MONO_SENSOR, width = 8, pattern = Some ''grbg'',
      code = MEDIA_BUS_FMT_SGRBG8_1X8, flavor = Some MEDIA_BUS_FMT_SGRBG8_1X8,
      bpl_factor = 1, bits_per_pixel = 8, bpl_scaling = (1, 1),
      fourcc = V4L2_PIX_FMT_SGRBG8, num_planes = 1, buffers = 1, hsub = 1, vsub = 1\<rparr>,
    \<lparr>vf_code = XVIP_VF_MONO_SENSOR, width = 8, pattern = Some ''gbrg'',
      code = MEDIA_BUS_FMT_SGBRG8_1X8, flavor = Some MEDIA_BUS_FMT_SGBRG8_1X8,
      bpl_factor = 1, bits_per_pixel = 8, bpl_scaling = (1, 1),
      fourcc = V4L2_PIX_FMT_SGBRG8, num_planes = 1, buffers = 1, hsub = 1, vsub = 1\<rparr>,
    \<lparr>vf_code = XVIP_VF_MONO_SENSOR, width = 8, pattern = Some ''bggr'',
      code = MEDIA_BUS_FMT_SBGGR8_1X8, flavor = Some MEDIA_BUS_FMT_SBGGR8_1X8,
      bpl_factor = 1, bits_per_pixel = 8, bpl_scaling = (1, 1),
      fourcc = V4L2_PIX_FMT_SBGGR8, num_planes = 1, buffers = 1, hsub = 1, vsub = 1\<rparr>,
    \<lparr>vf_code = XVIP_VF_MONO_SENSOR, width = 10, pattern = Some ''rggb'',
      code = MEDIA_BUS_FMT_SRGGB10_1X10, flavor = Some MEDIA_BUS_FMT_SRGGB8_1X8,
      bpl_factor = 2, bits_per_pixel = 10, bpl_scaling = (1, 1),
      fourcc = V4L2_PIX_FMT_SRGGB10, num_planes = 1, buffers = 1, hsub = 1, vsub = 1\<rparr>,
    \<lparr>vf_code = XVIP_VF_MONO_SENSOR, width = 10, pattern = Some ''grbg'',
      code = MEDIA_BUS_FMT_SGRBG10_1X10, flavor = Some MEDIA_BUS_FMT_SGRBG8_1X8,
      bpl_factor = 2, bits_per_pixel = 10, bpl_scaling = (1, 1),
      fourcc = V4L2_PIX_FMT_SGRBG10, num_planes = 1, buffers = 1, hsub = 1, vsub = 1\<rparr>,
    \<lparr>vf_code = XVIP_VF_MONO_SENSOR, width = 10, pattern = Some ''gbrg'',
      code = MEDIA_BUS_FMT_SGBRG10_1X10, flavor = Some MEDIA_BUS_FMT_SGBRG8_1X8,
      bpl_factor = 2, bits_per_pixel = 10, bpl_scaling = (1, 1),
      fourcc = V4L2_PIX_FMT_SGBRG10, num_planes = 1, buffers = 1, hsub = 1, vsub = 1\<rparr>,
    \<lparr>vf_code = XVIP_VF_MONO_SENSOR, width = 10, pattern = Some ''bggr'',
      code = MEDIA_BUS_FMT_SBGGR10_1X10, flavor = Some MEDIA_BUS_FMT_SBGGR8_1X8,
      bpl_factor = 2, bits_per_pixel = 10, bpl_scaling = (1, 1),
      fourcc = V4L2_PIX_FMT_SBGGR10, num_planes = 1, buffers = 1, hsub = 1, vsub = 1\<rparr>,
    \<lparr>vf_code = XVIP_VF_MONO_SENSOR, width = 12, pattern = Some ''rggb'',
      code = MEDIA_BUS_FMT_SRGGB12_1X12, flavor = Some MEDIA_BUS_FMT_SRGGB8_1X8,
      bpl_factor = 2, bits_per_pixel = 12, bpl_scaling = (1, 1),
      fourcc = V4L2_PIX_FMT_SRGGB12, num_planes = 1, buffers = 1, hsub = 1, vsub = 1\<rparr>,
    \<lparr>vf_code = XVIP_VF_MONO_SENSOR, width = 12, pattern = Some ''grbg'',
      code = MEDIA_BUS_FMT_SGRBG12_1X12, flavor = Some MEDIA_BUS_FMT_SGRBG8_1X8,
      bpl_factor = 2, bits_per_pixel = 12, bpl_scaling = (1, 1),
      fourcc = V4L2_PIX_FMT_SGRBG12, num_planes = 1, buffers = 1, hsub = 1, vsub = 1\<rparr>,
    \<lparr>vf_code = XVIP_VF_MONO_SENSOR, width = 12, pattern = Some ''gbrg'',
      code = MEDIA_BUS_FMT_SGBRG12_1X12, flavor = Some MEDIA_BUS_FMT_SGBRG8_1X8,
      bpl_factor = 2, bits_per_pixel = 12, bpl_scaling = (1, 1),
      fourcc = V4L2_PIX_FMT_SGBRG12, num_planes = 1, buffers = 1, hsub = 1, vsub = 1\<rparr>,
    \<lparr>vf_code = XVIP_VF_MONO_SENSOR, width = 12, pattern = Some ''bggr'',
      code = MEDIA_BUS_FMT_SBGGR12_1X12, flavor = Some MEDIA_BUS_FMT_SBGGR8_1X8,
      bpl_factor = 2, bits_per_pixel = 12, bpl_scaling = (1, 1),
      fourcc = V4L2_PIX_FMT_SBGGR12, num_planes = 1, buffers = 1, hsub = 1, vsub = 1\<rparr>,
    \<lparr>vf_code = XVIP_VF_MONO_SENSOR, width = 16, pattern = Some ''rggb'',
      code = MEDIA_BUS_FMT_SRGGB16_1X16, flavor = Some MEDIA_BUS_FMT_SRGGB8_1X8,
      bpl_factor = 2, bits_per_pixel = 16, bpl_scaling = (1, 1),
      fourcc = V4L2_PIX_FMT_SRGGB16, num_planes = 1, buffers = 1, hsub = 1, vsub = 1\<rparr>,
    \<lparr>vf_code = XVIP_VF_MONO_SENSOR, width = 16, pattern = Some ''grbg'',
      code = MEDIA_BUS_FMT_SGRBG16_1X16, flavor = Some MEDIA_BUS_FMT_SGRBG8_1X8,
      bpl_factor = 2, bits_per_pixel = 16, bpl_scaling = (1, 1),
      fourcc = V4L2_PIX_FMT_SGRBG16, num_planes = 1, buffers = 1, hsub = 1, vsub = 1\<rparr>,
    \<lparr>vf_code = XVIP_VF_MONO_SENSOR, width = 16, pattern = Some ''gbrg'',
      code = MEDIA_BUS_FMT_SGBRG16_1X16, flavor = Some MEDIA_BUS_FMT_SGBRG8_1X8,
      bpl_factor = 2, bits_per_pixel = 16, bpl_scaling = (1, 1),
      fourcc = V4L2_PIX_FMT_SGBRG16, num_planes = 1, buffers = 1, hsub = 1, vsub = 1\<rparr>,
    \<lparr>vf_code = XVIP_VF_MONO_SENSOR, width = 16, pattern = Some ''bggr'',
      code = MEDIA_BUS_FMT_SBGGR16_1X16, flavor = Some MEDIA_BUS_FMT_SBGGR8_1X8,
      bpl_factor = 2, bits_per_pixel = 16, bpl_scaling = (1, 1),
      fourcc = V4L2_PIX_FMT_SBGGR16, num_planes = 1, buffers = 1, hsub = 1, vsub = 1\<rparr>]"

text \<open>
  \<open>xvip_get_format_by_code\<close>: the loop \<open>for (i = 0; i < ARRAY_SIZE(...); ++i)\<close>
  returns the first entry whose \<open>code\<close> equals the argument; after the loop the
  function returns \<open>ERR_PTR(-EINVAL)\<close>. A returned pointer is \<open>Inr\<close> of the
  entry, an error pointer is \<open>Inl\<close> of the status.
\<close>

fun format_by_code_loop ::
  "(media_bus_fmt \<Rightarrow> u32) \<Rightarrow> xvip_video_format list \<Rightarrow> u32 \<Rightarrow> xvip_video_format option" where
  "format_by_code_loop busv [] c = None"
| "format_by_code_loop busv (format # rest) c =
     (if busv (code format) = c then Some format else format_by_code_loop busv rest c)"

definition xvip_get_format_by_code ::
  "(media_bus_fmt \<Rightarrow> u32) \<Rightarrow> u32 \<Rightarrow> int + xvip_video_format" where
  "xvip_get_format_by_code busv c =
     (case format_by_code_loop busv xvip_video_formats c of
        Some format \<Rightarrow> Inr format
      | None \<Rightarrow> Inl (- EINVAL))"

text \<open>
  \<open>xvip_get_format_by_fourcc\<close>: the same loop on the \<open>fourcc\<close> field; after the
  loop the function returns \<open>&xvip_video_formats[0]\<close>.
\<close>

fun format_by_fourcc_loop ::
  "(v4l2_pix_fmt \<Rightarrow> u32) \<Rightarrow> xvip_video_format list \<Rightarrow> u32 \<Rightarrow> xvip_video_format option" where
  "format_by_fourcc_loop pixv [] c = None"
| "format_by_fourcc_loop pixv (format # rest) c =
     (if pixv (fourcc format) = c then Some format else format_by_fourcc_loop pixv rest c)"

definition xvip_get_format_by_fourcc ::
  "(v4l2_pix_fmt \<Rightarrow> u32) \<Rightarrow> u32 \<Rightarrow> int + xvip_video_format" where
  "xvip_get_format_by_fourcc pixv c =
     (case format_by_fourcc_loop pixv xvip_video_formats c of
        Some format \<Rightarrow> Inr format
      | None \<Rightarrow> Inr (xvip_video_formats ! 0))"

section \<open>External calls and their log\<close>

text \<open>
  The drivers call into code that is outside them: the device-specific stream
  hooks behind \<open>xvip->ops\<close>, the V4L2 entry points
  \<open>v4l2_subdev_enable_streams\<close> and \<open>v4l2_subdev_disable_streams\<close> of a
  neighbouring subdevice, and the DMA engine (\<open>dma_async_issue_pending\<close>,
  \<open>dmaengine_terminate_all\<close>). Each such call is an event. The state threaded
  through the model is the log of the events issued so far, oldest first. The
  status an external call returns is given by the environment as a function of
  the log at the time of the call and of the call itself, so it may depend on
  everything that happened before. Whether \<open>kcalloc\<close> fails is likewise decided
  by the environment.
\<close>

datatype event =
    Dev_enable_streams nat u32 u64
  | Dev_disable_streams nat u32 u64
  | Subdev_enable_streams nat u32 u64
  | Subdev_disable_streams nat u32 u64
  | Dma_issue_pending nat
  | Dma_terminate_all nat

record environment =
  status :: "event list \<Rightarrow> event \<Rightarrow> int"
  kcalloc_fails :: "event list \<Rightarrow> bool"

definition call :: "environment \<Rightarrow> event \<Rightarrow> event list \<Rightarrow> int \<times> event list" where
  "call env ev tr = (status env tr ev, tr @ [ev])"

text \<open>
  \<open>BIT(n)\<close> is \<open>1UL << n\<close> on a 64-bit \<open>unsigned long\<close>. C leaves the shift
  undefined for \<open>n \<ge> 64\<close>; the compiled shift of the 64-bit targets takes
  the count modulo 64, and so does the model: \<open>BIT(64)\<close> is \<open>BIT(0)\<close>.
\<close>

definition BIT :: "u32 \<Rightarrow> u64" where
  "BIT n = push_bit (unat n mod 64) 1"

section \<open>Media graph objects\<close>

text \<open>
  A pad as a link end or as a member of an entity: the identity and the object
  type of the entity it belongs to, its index and its flags. The flag values
  are those of the media controller interface (\<open>MEDIA_PAD_FL_SINK\<close> is bit 0,
  \<open>MEDIA_PAD_FL_SOURCE\<close> bit 1; \<open>MEDIA_LNK_FL_ENABLED\<close> is bit 0 and the link
  type is the top nibble of the link flags, 0 for a data link).
\<close>

datatype media_entity_type =
  MEDIA_ENTITY_TYPE_BASE | MEDIA_ENTITY_TYPE_VIDEO_DEVICE | MEDIA_ENTITY_TYPE_V4L2_SUBDEV

record media_pad =
  pad_entity :: nat
  pad_entity_type :: media_entity_type
  pad_index :: u32
  pad_flags :: u32

definition is_media_entity_v4l2_subdev :: "media_pad \<Rightarrow> bool" where
  "is_media_entity_v4l2_subdev pad = (pad_entity_type pad = MEDIA_ENTITY_TYPE_V4L2_SUBDEV)"

section \<open>Pipeline stream management (Xilinx Video DMA)\<close>

datatype vfl_dir = VFL_DIR_RX | VFL_DIR_TX

text \<open>
  A DMA engine: its channel, the direction of its video node, and the pad that
  \<open>media_pad_remote_pad_first(&dma->pad)\<close> finds (\<open>None\<close> for NULL).
\<close>

record xvip_dma =
  dma_chan :: nat
  dma_vfl_dir :: vfl_dir
  dma_pad_remote :: "media_pad option"

text \<open>
  The pipeline: the list \<open>pipe->dmas\<close> and the four counters, which are
  \<open>unsigned int\<close> and wrap around.
\<close>

record xvip_pipeline =
  dmas :: "xvip_dma list"
  num_inputs :: u32
  num_outputs :: u32
  input_stream_count :: u32
  output_stream_count :: u32

definition XVIP_DMA_MULTI_OUT_MODE_SYNC :: int where
  "XVIP_DMA_MULTI_OUT_MODE_SYNC = 0"

definition XVIP_DMA_MULTI_OUT_MODE_ASYNC :: int where
  "XVIP_DMA_MULTI_OUT_MODE_ASYNC = 1"

definition xvip_dma_remote_subdev :: "xvip_dma \<Rightarrow> (nat \<times> u32) option" where
  "xvip_dma_remote_subdev dma =
     (case dma_pad_remote dma of
        None \<Rightarrow> None
      | Some remote \<Rightarrow>
          if \<not> is_media_entity_v4l2_subdev remote then None
          else Some (pad_entity remote, pad_index remote))"

text \<open>\<open>xvip_dma_start\<close> issues the pending transfers and returns 0.\<close>

definition xvip_dma_start :: "xvip_dma \<Rightarrow> event list \<Rightarrow> int \<times> event list" where
  "xvip_dma_start dma tr = (0, tr @ [Dma_issue_pending (dma_chan dma)])"

definition xvip_dma_stop :: "xvip_dma \<Rightarrow> event list \<Rightarrow> event list" where
  "xvip_dma_stop dma tr = tr @ [Dma_terminate_all (dma_chan dma)]"

definition xvip_pipeline_enable_branch ::
  "environment \<Rightarrow> xvip_dma \<Rightarrow> event list \<Rightarrow> int \<times> event list" where
  "xvip_pipeline_enable_branch env dma tr =
     (case xvip_dma_remote_subdev dma of
        None \<Rightarrow> (- ENXIO, tr)
      | Some (sd, pad) \<Rightarrow>
          (case call env (Subdev_enable_streams sd pad (BIT 0)) tr of
             (ret, tr') \<Rightarrow> if ret \<noteq> 0 then (ret, tr') else (0, tr')))"

definition xvip_pipeline_disable_branch ::
  "environment \<Rightarrow> xvip_dma \<Rightarrow> event list \<Rightarrow> int \<times> event list" where
  "xvip_pipeline_disable_branch env dma tr =
     (case xvip_dma_remote_subdev dma of
        None \<Rightarrow> (- ENXIO, tr)
      | Some (sd, pad) \<Rightarrow>
          (case call env (Subdev_disable_streams sd pad (BIT 0)) tr of
             (ret, tr') \<Rightarrow> if ret \<noteq> 0 then (ret, tr') else (0, tr')))"

text \<open>
  The loops of \<open>xvip_pipeline_start\<close>. \<open>xvip_pipeline_for_each_dma\<close> walks
  \<open>pipe->dmas\<close> from the front and runs its body on the engines of one
  direction. A loop that is left by \<open>goto\<close> leaves the cursor \<open>dma\<close> on the
  engine that failed; a loop that runs to its end leaves it on the list head.
  The cursor is the position in the list, the list head being the position
  after the last engine.
\<close>

fun start_each_dma ::
  "vfl_dir \<Rightarrow> xvip_dma list \<Rightarrow> nat \<Rightarrow> event list \<Rightarrow> int \<times> nat \<times> event list" where
  "start_each_dma ty [] cur tr = (0, cur, tr)"
| "start_each_dma ty (dma # rest) cur tr =
     (if dma_vfl_dir dma = ty then
        (case xvip_dma_start dma tr of
           (ret, tr') \<Rightarrow>
             if ret \<noteq> 0 then (ret, cur, tr')
             else start_each_dma ty rest (Suc cur) tr')
      else start_each_dma ty rest (Suc cur) tr)"

fun enable_each_branch ::
  "environment \<Rightarrow> vfl_dir \<Rightarrow> xvip_dma list \<Rightarrow> nat \<Rightarrow> event list \<Rightarrow>
   int \<times> nat \<times> event list" where
  "enable_each_branch env ty [] cur tr = (0, cur, tr)"
| "enable_each_branch env ty (dma # rest) cur tr =
     (if dma_vfl_dir dma = ty then
        (case xvip_pipeline_enable_branch env dma tr of
           (ret, tr') \<Rightarrow>
             if ret \<noteq> 0 then (ret, cur, tr')
             else enable_each_branch env ty rest (Suc cur) tr')
      else enable_each_branch env ty rest (Suc cur) tr)"

text \<open>
  The loops without exit: stopping the engines of one direction and disabling
  their branches, the status of each call being dropped.
\<close>

fun stop_each_dma :: "vfl_dir \<Rightarrow> xvip_dma list \<Rightarrow> event list \<Rightarrow> event list" where
  "stop_each_dma ty [] tr = tr"
| "stop_each_dma ty (dma # rest) tr =
     (if dma_vfl_dir dma = ty then stop_each_dma ty rest (xvip_dma_stop dma tr)
      else stop_each_dma ty rest tr)"

fun disable_each_branch ::
  "environment \<Rightarrow> vfl_dir \<Rightarrow> xvip_dma list \<Rightarrow> event list \<Rightarrow> event list" where
  "disable_each_branch env ty [] tr = tr"
| "disable_each_branch env ty (dma # rest) tr =
     (if dma_vfl_dir dma = ty then
        disable_each_branch env ty rest (snd (xvip_pipeline_disable_branch env dma tr))
      else disable_each_branch env ty rest tr)"

text \<open>
  \<open>xvip_pipeline_for_each_dma_continue_reverse\<close> visits the engines before the
  cursor, last first. From the list head it visits the whole list backwards.
\<close>

definition continue_reverse :: "nat \<Rightarrow> 'a list \<Rightarrow> 'a list" where
  "continue_reverse cur xs = rev (take cur xs)"

text \<open>
  The three error labels of \<open>xvip_pipeline_start\<close>. Each reverse loop ends on
  the list head, which is where the next label's loop starts from.
\<close>

definition err_output :: "xvip_pipeline \<Rightarrow> int \<Rightarrow> nat \<Rightarrow> event list \<Rightarrow> int \<times> event list" where
  "err_output pipe ret cur tr =
     (ret, stop_each_dma VFL_DIR_RX (continue_reverse cur (dmas pipe)) tr)"

definition err_branch ::
  "environment \<Rightarrow> xvip_pipeline \<Rightarrow> int \<Rightarrow> nat \<Rightarrow> event list \<Rightarrow> int \<times> event list" where
  "err_branch env pipe ret cur tr =
     err_output pipe ret (length (dmas pipe))
       (disable_each_branch env VFL_DIR_RX (continue_reverse cur (dmas pipe)) tr)"

definition err_input ::
  "environment \<Rightarrow> xvip_pipeline \<Rightarrow> int \<Rightarrow> nat \<Rightarrow> event list \<Rightarrow> int \<times> event list" where
  "err_input env pipe ret cur tr =
     err_branch env pipe ret (length (dmas pipe))
       (stop_each_dma VFL_DIR_TX (continue_reverse cur (dmas pipe)) tr)"

definition xvip_pipeline_start ::
  "environment \<Rightarrow> xvip_pipeline \<Rightarrow> event list \<Rightarrow> int \<times> event list" where
  "xvip_pipeline_start env pipe tr =
     (case start_each_dma VFL_DIR_RX (dmas pipe) 0 tr of
        (ret, cur, tr1) \<Rightarrow>
          if ret \<noteq> 0 then err_output pipe ret cur tr1
          else
            (case enable_each_branch env VFL_DIR_RX (dmas pipe) 0 tr1 of
               (ret, cur, tr2) \<Rightarrow>
                 if ret \<noteq> 0 then err_branch env pipe ret cur tr2
                 else
                   (case start_each_dma VFL_DIR_TX (dmas pipe) 0 tr2 of
                      (ret, cur, tr3) \<Rightarrow>
                        if ret \<noteq> 0 then err_input env pipe ret cur tr3
                        else (0, tr3))))"

definition xvip_pipeline_stop :: "environment \<Rightarrow> xvip_pipeline \<Rightarrow> event list \<Rightarrow> event list" where
  "xvip_pipeline_stop env pipe tr =
     stop_each_dma VFL_DIR_RX (dmas pipe)
       (disable_each_branch env VFL_DIR_RX (dmas pipe)
          (stop_each_dma VFL_DIR_TX (dmas pipe) tr))"

text \<open>
  \<open>xvip_pipeline_start_dma\<close> and \<open>xvip_pipeline_stop_dma\<close>. The mode is the
  module parameter \<open>xvip_dma_multi_out_mode\<close>; every value other than
  \<open>XVIP_DMA_MULTI_OUT_MODE_ASYNC\<close> takes the synchronous case of the switch.
  The result is the returned status, the pipeline and the log.
\<close>

definition stream_count_inc :: "xvip_pipeline \<Rightarrow> xvip_dma \<Rightarrow> xvip_pipeline" where
  "stream_count_inc pipe dma =
     (if dma_vfl_dir dma = VFL_DIR_RX
      then pipe\<lparr>output_stream_count := output_stream_count pipe + 1\<rparr>
      else pipe\<lparr>input_stream_count := input_stream_count pipe + 1\<rparr>)"

definition stream_count_dec :: "xvip_pipeline \<Rightarrow> xvip_dma \<Rightarrow> xvip_pipeline" where
  "stream_count_dec pipe dma =
     (if dma_vfl_dir dma = VFL_DIR_RX
      then pipe\<lparr>output_stream_count := output_stream_count pipe - 1\<rparr>
      else pipe\<lparr>input_stream_count := input_stream_count pipe - 1\<rparr>)"

definition xvip_pipeline_start_dma ::
  "environment \<Rightarrow> int \<Rightarrow> xvip_pipeline \<Rightarrow> xvip_dma \<Rightarrow> event list \<Rightarrow>
   int \<times> xvip_pipeline \<times> event list" where
  "xvip_pipeline_start_dma env mode pipe dma tr =
     (if mode = XVIP_DMA_MULTI_OUT_MODE_ASYNC then
        (case xvip_dma_start dma tr of
           (ret, tr1) \<Rightarrow>
             if ret \<noteq> 0 then (ret, pipe, tr1)
             else
               (case xvip_pipeline_enable_branch env dma tr1 of
                  (ret, tr2) \<Rightarrow>
                    if ret \<noteq> 0 then (ret, pipe, xvip_dma_stop dma tr2)
                    else (ret, pipe, tr2)))
      else if input_stream_count pipe + output_stream_count pipe =
              num_inputs pipe + num_outputs pipe - 1 then
        (case xvip_pipeline_start env pipe tr of
           (ret, tr1) \<Rightarrow>
             if ret < 0 then (ret, pipe, tr1)
             else (ret, stream_count_inc pipe dma, tr1))
      else (0, stream_count_inc pipe dma, tr))"

definition xvip_pipeline_stop_dma ::
  "environment \<Rightarrow> int \<Rightarrow> xvip_pipeline \<Rightarrow> xvip_dma \<Rightarrow> event list \<Rightarrow>
   xvip_pipeline \<times> event list" where
  "xvip_pipeline_stop_dma env mode pipe dma tr =
     (if mode = XVIP_DMA_MULTI_OUT_MODE_ASYNC then
        (pipe, xvip_dma_stop dma (snd (xvip_pipeline_disable_branch env dma tr)))
      else
        (let pipe' = stream_count_dec pipe dma in
         if input_stream_count pipe' + output_stream_count pipe' =
            num_inputs pipe' + num_outputs pipe' - 1
         then (pipe', xvip_pipeline_stop env pipe' tr)
         else (pipe', tr)))"

text \<open>The engines of one direction, in list order, and the calls made for them.\<close>

definition dmas_of :: "vfl_dir \<Rightarrow> xvip_dma list \<Rightarrow> xvip_dma list" where
  "dmas_of ty ds = filter (\<lambda>dma. dma_vfl_dir dma = ty) ds"

definition dma_starts :: "xvip_dma list \<Rightarrow> event list" where
  "dma_starts ds = map (\<lambda>dma. Dma_issue_pending (dma_chan dma)) ds"

definition dma_stops :: "xvip_dma list \<Rightarrow> event list" where
  "dma_stops ds = map (\<lambda>dma. Dma_terminate_all (dma_chan dma)) ds"

definition branch_enable_calls :: "xvip_dma \<Rightarrow> event list" where
  "branch_enable_calls dma =
     (case xvip_dma_remote_subdev dma of
        None \<Rightarrow> []
      | Some (sd, pad) \<Rightarrow> [Subdev_enable_streams sd pad (BIT 0)])"

definition branch_disable_calls :: "xvip_dma \<Rightarrow> event list" where
  "branch_disable_calls dma =
     (case xvip_dma_remote_subdev dma of
        None \<Rightarrow> []
      | Some (sd, pad) \<Rightarrow> [Subdev_disable_streams sd pad (BIT 0)])"

definition enable_failed_at ::
  "environment \<Rightarrow> vfl_dir \<Rightarrow> xvip_dma list \<Rightarrow> nat \<Rightarrow> event list \<Rightarrow>
   xvip_dma list \<Rightarrow> xvip_dma \<Rightarrow> xvip_dma list \<Rightarrow> bool" where
  "enable_failed_at env ty ds cur tr pre bad post =
     (ds = pre @ bad # post \<and> dma_vfl_dir bad = ty \<and>
      enable_each_branch env ty ds cur tr =
        (fst (xvip_pipeline_enable_branch env bad
                (tr @ concat (map branch_enable_calls (dmas_of ty pre)))),
         cur + length pre,
         tr @ concat (map branch_enable_calls (dmas_of ty pre)) @ branch_enable_calls bad) \<and>
      list_all (\<lambda>dma. xvip_dma_remote_subdev dma \<noteq> None) (dmas_of ty pre))"

text \<open>
  The branch enables of a list of engines, made one after the other from a
  given log, all return 0.
\<close>

fun branch_steps_ok :: "environment \<Rightarrow> xvip_dma list \<Rightarrow> event list \<Rightarrow> bool" where
  "branch_steps_ok env [] tr = True"
| "branch_steps_ok env (dma # rest) tr =
     (fst (xvip_pipeline_enable_branch env dma tr) = 0 \<and>
      branch_steps_ok env rest (snd (xvip_pipeline_enable_branch env dma tr)))"

text \<open>
  A pipeline to run the functions on: two capture engines (channels 1 and 2,
  fed by pad 1 of the subdevices 10 and 11) and one output engine (channel 3,
  feeding pad 0 of subdevice 12). In \<open>ex_env_fail\<close> enabling streams on
  subdevice 11 and disabling streams on subdevice 10 fail with -5; in
  \<open>ex_env_ok\<close> every call succeeds.
\<close>

definition ex_subdev_pad :: "nat \<Rightarrow> u32 \<Rightarrow> media_pad" where
  "ex_subdev_pad sd idx =
     \<lparr>pad_entity = sd, pad_entity_type = MEDIA_ENTITY_TYPE_V4L2_SUBDEV,
      pad_index = idx, pad_flags = 0\<rparr>"

definition ex_dma1 :: xvip_dma where
  "ex_dma1 = \<lparr>dma_chan = 1, dma_vfl_dir = VFL_DIR_RX,
              dma_pad_remote = Some (ex_subdev_pad 10 1)\<rparr>"

definition ex_dma2 :: xvip_dma where
  "ex_dma2 = \<lparr>dma_chan = 2, dma_vfl_dir = VFL_DIR_RX,
              dma_pad_remote = Some (ex_subdev_pad 11 1)\<rparr>"

definition ex_dma3 :: xvip_dma where
  "ex_dma3 = \<lparr>dma_chan = 3, dma_vfl_dir = VFL_DIR_TX,
              dma_pad_remote = Some (ex_subdev_pad 12 0)\<rparr>"

definition ex_pipe :: "u32 \<Rightarrow> u32 \<Rightarrow> xvip_pipeline" where
  "ex_pipe ins outs =
     \<lparr>dmas = [ex_dma1, ex_dma3, ex_dma2], num_inputs = 1, num_outputs = 2,
      input_stream_count = ins, output_stream_count = outs\<rparr>"

definition ex_env_ok :: environment where
  "ex_env_ok = \<lparr>status = (\<lambda>tr ev. 0), kcalloc_fails = (\<lambda>tr. False)\<rparr>"


definition ex_env_fail :: environment where
  "ex_env_fail =
     \<lparr>status = (\<lambda>tr ev. case ev of
                   Subdev_enable_streams sd pad strms \<Rightarrow> if sd = 11 then - 5 else 0
                 | Subdev_disable_streams sd pad strms \<Rightarrow> if sd = 10 then - 5 else 0
                 | _ \<Rightarrow> 0),
      kcalloc_fails = (\<lambda>tr. False)\<rparr>"

section \<open>Stream propagation (xilinx-vip.c)\<close>

definition MEDIA_PAD_FL_SINK :: u32 where "MEDIA_PAD_FL_SINK = 1"
definition MEDIA_PAD_FL_SOURCE :: u32 where "MEDIA_PAD_FL_SOURCE = 2"
definition MEDIA_LNK_FL_ENABLED :: u32 where "MEDIA_LNK_FL_ENABLED = 1"
definition MEDIA_LNK_FL_LINK_TYPE :: u32 where "MEDIA_LNK_FL_LINK_TYPE = push_bit 28 15"
definition MEDIA_LNK_FL_DATA_LINK :: u32 where "MEDIA_LNK_FL_DATA_LINK = push_bit 28 0"
definition V4L2_SUBDEV_ROUTE_FL_ACTIVE :: u32 where "V4L2_SUBDEV_ROUTE_FL_ACTIVE = 1"

record media_link =
  link_source :: media_pad
  link_sink :: media_pad
  link_flags :: u32

record v4l2_subdev_route =
  sink_pad :: u32
  sink_stream :: u32
  source_pad :: u32
  source_stream :: u32
  route_flags :: u32

text \<open>
  The subdevice state: the routing table \<open>state->routing\<close> and the format of
  each stream, keyed by pad and stream. The frame format structure is built
  from macros of headers that are not at hand, so its type is a parameter.
\<close>

record 'fmt v4l2_subdev_state =
  routing :: "v4l2_subdev_route list"
  stream_formats :: "((u32 \<times> u32) \<times> 'fmt) list"

text \<open>
  \<open>xvip->ops\<close>: which of the two device hooks are set. A hook is device
  code; calling it is an external call.
\<close>

record xvip_device_ops =
  enable_streams :: bool
  disable_streams :: bool

text \<open>
  A subdevice built on \<open>struct xvip_device\<close>: the identity of its media
  entity, the entity's pads and links, the pipeline the entity is part of
  (NULL, here \<open>None\<close>, when it is part of none), the numbers of sink and
  source pads, and the device operations (\<open>None\<close> for a NULL \<open>ops\<close>).
\<close>

record xvip_device =
  sd_entity :: nat
  pads :: "media_pad list"
  links :: "media_link list"
  entity_pipe :: "nat option"
  num_sinks :: u32
  num_sources :: u32
  ops :: "xvip_device_ops option"

definition for_each_active_route :: "v4l2_subdev_route list \<Rightarrow> v4l2_subdev_route list" where
  "for_each_active_route routes =
     filter (\<lambda>route. route_flags route AND V4L2_SUBDEV_ROUTE_FL_ACTIVE \<noteq> 0) routes"

text \<open>
  The array \<open>streams\<close> of \<open>__xvip_enable_connected_streams\<close>, one mask per pad,
  zeroed by \<open>kcalloc\<close>. It is a function of the pad index: the pads named by
  validated routes and by links of the entity are pads of the entity, and the
  model does not bound the index.

  The loop over the active routes:
\<close>

fun collect_routes ::
  "u32 \<Rightarrow> u64 \<Rightarrow> v4l2_subdev_route list \<Rightarrow> (u32 \<Rightarrow> u64) \<Rightarrow> (u32 \<Rightarrow> u64)" where
  "collect_routes pad streams_mask [] streams = streams"
| "collect_routes pad streams_mask (route # rest) streams =
     (let streams1 =
            (if sink_pad route = pad \<and> streams_mask AND BIT (sink_stream route) \<noteq> 0
             then streams(source_pad route :=
                            streams (source_pad route) OR BIT (source_stream route))
             else streams);
          streams2 =
            (if source_pad route = pad \<and> streams_mask AND BIT (source_stream route) \<noteq> 0
             then streams1(sink_pad route :=
                             streams1 (sink_pad route) OR BIT (sink_stream route))
             else streams1)
      in collect_routes pad streams_mask rest streams2)"

text \<open>The legacy loop over the pads of the entity:\<close>

fun collect_pads ::
  "media_pad \<Rightarrow> u64 \<Rightarrow> media_pad list \<Rightarrow> (u32 \<Rightarrow> u64) \<Rightarrow> (u32 \<Rightarrow> u64)" where
  "collect_pads local_pad streams_mask [] streams = streams"
| "collect_pads local_pad streams_mask (other_pad # rest) streams =
     (if pad_flags local_pad XOR pad_flags other_pad \<noteq>
         MEDIA_PAD_FL_SINK OR MEDIA_PAD_FL_SOURCE
      then collect_pads local_pad streams_mask rest streams
      else collect_pads local_pad streams_mask rest
             (streams(pad_index other_pad := streams_mask)))"

text \<open>
  The loop over the links of the entity. A failing call leaves the loop
  (\<open>break\<close>) with its status; otherwise the status is 0.
\<close>

fun connected_links_loop ::
  "environment \<Rightarrow> xvip_device \<Rightarrow> (u32 \<Rightarrow> u64) \<Rightarrow> bool \<Rightarrow> media_link list \<Rightarrow>
   event list \<Rightarrow> int \<times> event list" where
  "connected_links_loop env sd streams enable [] tr = (0, tr)"
| "connected_links_loop env sd streams enable (link # rest) tr =
     (if link_flags link AND MEDIA_LNK_FL_ENABLED = 0 \<or>
         link_flags link AND MEDIA_LNK_FL_LINK_TYPE \<noteq> MEDIA_LNK_FL_DATA_LINK
      then connected_links_loop env sd streams enable rest tr
      else
        (let local_pad = (if pad_entity (link_source link) = sd_entity sd
                          then link_source link else link_sink link);
             remote_pad = (if pad_entity (link_source link) = sd_entity sd
                           then link_sink link else link_source link)
         in if streams (pad_index local_pad) = 0
            then connected_links_loop env sd streams enable rest tr
            else if \<not> is_media_entity_v4l2_subdev remote_pad
            then connected_links_loop env sd streams enable rest tr
            else
              (case call env
                      (if enable
                       then Subdev_enable_streams (pad_entity remote_pad)
                              (pad_index remote_pad) (streams (pad_index local_pad))
                       else Subdev_disable_streams (pad_entity remote_pad)
                              (pad_index remote_pad) (streams (pad_index local_pad)))
                      tr of
                 (ret, tr') \<Rightarrow>
                   if ret \<noteq> 0 then (ret, tr')
                   else connected_links_loop env sd streams enable rest tr')))"

text \<open>
  \<open>__xvip_enable_connected_streams\<close> (named \<open>uu_...\<close> here). With a state
  the routed pads are collected; without one (\<open>None\<close>, the legacy case) the
  pads on the other side of \<open>sd->entity.pads[pad]\<close>. The V4L2 core rejects a
  pad index that is not a pad of the entity before it calls the pad
  operation, so \<open>pad\<close> is in range in the legacy case.
\<close>

definition collected_streams ::
  "xvip_device \<Rightarrow> 'fmt v4l2_subdev_state option \<Rightarrow> u32 \<Rightarrow> u64 \<Rightarrow> (u32 \<Rightarrow> u64)" where
  "collected_streams sd state pad streams_mask =
     (case state of
        Some st \<Rightarrow>
          collect_routes pad streams_mask (for_each_active_route (routing st)) (\<lambda>p. 0)
      | None \<Rightarrow>
          collect_pads (pads sd ! unat pad) streams_mask (pads sd) (\<lambda>p. 0))"

definition uu_xvip_enable_connected_streams ::
  "environment \<Rightarrow> xvip_device \<Rightarrow> 'fmt v4l2_subdev_state option \<Rightarrow> u32 \<Rightarrow> u64 \<Rightarrow> bool \<Rightarrow>
   event list \<Rightarrow> int \<times> event list" where
  "uu_xvip_enable_connected_streams env sd state pad streams_mask enable tr =
     (if kcalloc_fails env tr then (- ENOMEM, tr)
      else
        connected_links_loop env sd (collected_streams sd state pad streams_mask) enable
          (links sd) tr)"


definition xvip_disable_connected_streams ::
  "environment \<Rightarrow> xvip_device \<Rightarrow> 'fmt v4l2_subdev_state option \<Rightarrow> u32 \<Rightarrow> u64 \<Rightarrow>
   event list \<Rightarrow> int \<times> event list" where
  "xvip_disable_connected_streams env sd state pad streams_mask tr =
     uu_xvip_enable_connected_streams env sd state pad streams_mask False tr"


definition has_disable_streams :: "xvip_device \<Rightarrow> bool" where
  "has_disable_streams sd = (case ops sd of None \<Rightarrow> False | Some o' \<Rightarrow> disable_streams o')"


definition xvip_disable_streams ::
  "environment \<Rightarrow> xvip_device \<Rightarrow> 'fmt v4l2_subdev_state option \<Rightarrow> u32 \<Rightarrow> u64 \<Rightarrow>
   event list \<Rightarrow> int \<times> event list" where
  "xvip_disable_streams env sd state pad streams_mask tr =
     (case xvip_disable_connected_streams env sd state pad streams_mask tr of
        (ret, tr1) \<Rightarrow>
          if ret \<noteq> 0 then (ret, tr1)
          else if has_disable_streams sd then
            (case call env (Dev_disable_streams (sd_entity sd) pad streams_mask) tr1 of
               (ret, tr2) \<Rightarrow> if ret \<noteq> 0 then (ret, tr2) else (0, tr2))
          else (0, tr1))"

section \<open>Stream propagation: the selection in the words of the specification\<close>

text \<open>Issuing a list of calls in order, stopping after the first that fails.\<close>

fun issue_until_fail :: "environment \<Rightarrow> event list \<Rightarrow> event list \<Rightarrow> int \<times> event list" where
  "issue_until_fail env [] tr = (0, tr)"
| "issue_until_fail env (ev # rest) tr =
     (case call env ev tr of
        (ret, tr') \<Rightarrow> if ret \<noteq> 0 then (ret, tr') else issue_until_fail env rest tr')"

text \<open>
  Routed case: an active route whose sink is \<open>(pad, s)\<close> with \<open>s\<close> in the mask
  selects the route's source pad and stream, and an active route whose source
  is \<open>(pad, s)\<close> with \<open>s\<close> in the mask selects its sink pad and stream. The mask
  selected on a pad has the bits of the streams selected on it.
\<close>

definition stream_in_mask :: "u32 \<Rightarrow> u64 \<Rightarrow> bool" where
  "stream_in_mask s streams_mask = bit streams_mask (unat s)"

definition route_active :: "v4l2_subdev_route \<Rightarrow> bool" where
  "route_active route = (route_flags route AND V4L2_SUBDEV_ROUTE_FL_ACTIVE \<noteq> 0)"

definition route_selects :: "u32 \<Rightarrow> u64 \<Rightarrow> v4l2_subdev_route \<Rightarrow> (u32 \<times> u32) list" where
  "route_selects pad streams_mask route =
     (if sink_pad route = pad \<and> stream_in_mask (sink_stream route) streams_mask
      then [(source_pad route, source_stream route)] else []) @
     (if source_pad route = pad \<and> stream_in_mask (source_stream route) streams_mask
      then [(sink_pad route, sink_stream route)] else [])"

definition selected_by_routes ::
  "v4l2_subdev_route list \<Rightarrow> u32 \<Rightarrow> u64 \<Rightarrow> (u32 \<times> u32) list" where
  "selected_by_routes routes pad streams_mask =
     concat (map (route_selects pad streams_mask) (filter route_active routes))"

definition mask_of_selected :: "(u32 \<times> u32) list \<Rightarrow> u32 \<Rightarrow> u64" where
  "mask_of_selected sel p =
     fold (\<lambda>(q, s) m. if q = p then set_bit (unat s) m else m) sel 0"

text \<open>
  A stream mask has 64 bits: the stream identifiers of the active routes are
  below 64. Nothing in the drivers checks this; it is the condition under
  which \<open>BIT\<close> of a stream identifier is defined in C.
\<close>

definition stream_ids_below_64 :: "v4l2_subdev_route list \<Rightarrow> bool" where
  "stream_ids_below_64 routes =
     list_all (\<lambda>route. route_active route \<longrightarrow>
                 unat (sink_stream route) < 64 \<and> unat (source_stream route) < 64) routes"

text \<open>
  Legacy case: every pad whose sink/source polarity is opposite to that of the
  local pad is selected with the whole mask.
\<close>

definition pad_is_sink :: "media_pad \<Rightarrow> bool" where
  "pad_is_sink p = (pad_flags p AND MEDIA_PAD_FL_SINK \<noteq> 0)"

definition pad_is_source :: "media_pad \<Rightarrow> bool" where
  "pad_is_source p = (pad_flags p AND MEDIA_PAD_FL_SOURCE \<noteq> 0)"

definition opposite_polarity :: "media_pad \<Rightarrow> media_pad \<Rightarrow> bool" where
  "opposite_polarity a b =
     (pad_is_sink a \<and> pad_is_source b \<or> pad_is_source a \<and> pad_is_sink b)"

definition selected_legacy :: "media_pad list \<Rightarrow> media_pad \<Rightarrow> u64 \<Rightarrow> u32 \<Rightarrow> u64" where
  "selected_legacy ps local_pad streams_mask p =
     (if list_ex (\<lambda>other. pad_index other = p \<and> opposite_polarity local_pad other) ps
      then streams_mask else 0)"

definition selected_streams ::
  "xvip_device \<Rightarrow> 'fmt v4l2_subdev_state option \<Rightarrow> u32 \<Rightarrow> u64 \<Rightarrow> (u32 \<Rightarrow> u64)" where
  "selected_streams sd state pad streams_mask =
     (case state of
        Some st \<Rightarrow> mask_of_selected (selected_by_routes (routing st) pad streams_mask)
      | None \<Rightarrow> selected_legacy (pads sd) (pads sd ! unat pad) streams_mask)"

text \<open>
  The links that are followed: enabled data links whose local pad has a
  non-empty selection and whose remote entity is a V4L2 subdevice. Each is
  followed by one call on the remote pad with the mask selected on the local
  pad.
\<close>

definition link_local_pad :: "xvip_device \<Rightarrow> media_link \<Rightarrow> media_pad" where
  "link_local_pad sd link =
     (if pad_entity (link_source link) = sd_entity sd then link_source link
      else link_sink link)"

definition link_remote_pad :: "xvip_device \<Rightarrow> media_link \<Rightarrow> media_pad" where
  "link_remote_pad sd link =
     (if pad_entity (link_source link) = sd_entity sd then link_sink link
      else link_source link)"

definition link_followed :: "xvip_device \<Rightarrow> (u32 \<Rightarrow> u64) \<Rightarrow> media_link \<Rightarrow> bool" where
  "link_followed sd sel link =
     (link_flags link AND MEDIA_LNK_FL_ENABLED \<noteq> 0 \<and>
      link_flags link AND MEDIA_LNK_FL_LINK_TYPE = MEDIA_LNK_FL_DATA_LINK \<and>
      sel (pad_index (link_local_pad sd link)) \<noteq> 0 \<and>
      is_media_entity_v4l2_subdev (link_remote_pad sd link))"

definition remote_call :: "xvip_device \<Rightarrow> (u32 \<Rightarrow> u64) \<Rightarrow> bool \<Rightarrow> media_link \<Rightarrow> event" where
  "remote_call sd sel enable link =
     (if enable
      then Subdev_enable_streams (pad_entity (link_remote_pad sd link))
             (pad_index (link_remote_pad sd link)) (sel (pad_index (link_local_pad sd link)))
      else Subdev_disable_streams (pad_entity (link_remote_pad sd link))
             (pad_index (link_remote_pad sd link)) (sel (pad_index (link_local_pad sd link))))"

definition remote_calls :: "xvip_device \<Rightarrow> (u32 \<Rightarrow> u64) \<Rightarrow> bool \<Rightarrow> event list" where
  "remote_calls sd sel enable =
     map (remote_call sd sel enable) (filter (link_followed sd sel) (links sd))"

text \<open>The data model of the specification: every pad is tagged sink or source.\<close>

definition pad_tagged :: "media_pad \<Rightarrow> bool" where
  "pad_tagged p = (pad_flags p = MEDIA_PAD_FL_SINK \<or> pad_flags p = MEDIA_PAD_FL_SOURCE)"

text \<open>
  A subdevice to run the functions on: entity 5 with a sink pad 0 and a source
  pad 1 and both device hooks. Pad 0 is fed by pad 1 of subdevice 10 over an
  enabled data link. Pad 1 feeds, in the order of the list of links, pad 0 of
  subdevice 12 over a link that is not enabled, the pad of a video node
  (entity 30) over an enabled data link, and pad 0 of the subdevices 11 and 13
  over enabled data links.
\<close>

definition ex_pad :: "nat \<Rightarrow> media_entity_type \<Rightarrow> u32 \<Rightarrow> u32 \<Rightarrow> media_pad" where
  "ex_pad e ty idx fl =
     \<lparr>pad_entity = e, pad_entity_type = ty, pad_index = idx, pad_flags = fl\<rparr>"

definition ex_sd :: xvip_device where
  "ex_sd =
     \<lparr>sd_entity = 5,
      pads = [ex_pad 5 MEDIA_ENTITY_TYPE_V4L2_SUBDEV 0 MEDIA_PAD_FL_SINK,
              ex_pad 5 MEDIA_ENTITY_TYPE_V4L2_SUBDEV 1 MEDIA_PAD_FL_SOURCE],
      links =
        [\<lparr>link_source = ex_pad 10 MEDIA_ENTITY_TYPE_V4L2_SUBDEV 1 MEDIA_PAD_FL_SOURCE,
          link_sink = ex_pad 5 MEDIA_ENTITY_TYPE_V4L2_SUBDEV 0 MEDIA_PAD_FL_SINK,
          link_flags = MEDIA_LNK_FL_ENABLED\<rparr>,
         \<lparr>link_source = ex_pad 5 MEDIA_ENTITY_TYPE_V4L2_SUBDEV 1 MEDIA_PAD_FL_SOURCE,
          link_sink = ex_pad 12 MEDIA_ENTITY_TYPE_V4L2_SUBDEV 0 MEDIA_PAD_FL_SINK,
          link_flags = 0\<rparr>,
         \<lparr>link_source = ex_pad 5 MEDIA_ENTITY_TYPE_V4L2_SUBDEV 1 MEDIA_PAD_FL_SOURCE,
          link_sink = ex_pad 30 MEDIA_ENTITY_TYPE_VIDEO_DEVICE 0 MEDIA_PAD_FL_SINK,
          link_flags = MEDIA_LNK_FL_ENABLED\<rparr>,
         \<lparr>link_source = ex_pad 5 MEDIA_ENTITY_TYPE_V4L2_SUBDEV 1 MEDIA_PAD_FL_SOURCE,
          link_sink = ex_pad 11 MEDIA_ENTITY_TYPE_V4L2_SUBDEV 0 MEDIA_PAD_FL_SINK,
          link_flags = MEDIA_LNK_FL_ENABLED\<rparr>,
         \<lparr>link_source = ex_pad 5 MEDIA_ENTITY_TYPE_V4L2_SUBDEV 1 MEDIA_PAD_FL_SOURCE,
          link_sink = ex_pad 13 MEDIA_ENTITY_TYPE_V4L2_SUBDEV 0 MEDIA_PAD_FL_SINK,
          link_flags = MEDIA_LNK_FL_ENABLED\<rparr>],
      entity_pipe = None, num_sinks = 1, num_sources = 1,
      ops = Some \<lparr>enable_streams = True, disable_streams = True\<rparr>\<rparr>"


text \<open>
  A routing table for it: stream 0 of pad 0 routed to stream 2 of pad 1
  (active), and stream 1 of pad 0 routed to stream 3 of pad 1 (not active).
\<close>

definition ex_state :: "unit v4l2_subdev_state" where
  "ex_state =
     \<lparr>routing =
        [\<lparr>sink_pad = 0, sink_stream = 0, source_pad = 1, source_stream = 2,
          route_flags = V4L2_SUBDEV_ROUTE_FL_ACTIVE\<rparr>,
         \<lparr>sink_pad = 0, sink_stream = 1, source_pad = 1, source_stream = 3,
          route_flags = 0\<rparr>],
      stream_formats = []\<rparr>"

section \<open>Routing of the switches (xilinx-axis-switch.c, Xilinx Video Switch)\<close>

datatype v4l2_subdev_format_whence = V4L2_SUBDEV_FORMAT_TRY | V4L2_SUBDEV_FORMAT_ACTIVE

text \<open>
  The routing restrictions are named; a \<open>disallow\<close> argument, an OR of
  restriction bits in the source, is the set of the restrictions it names.
\<close>

datatype v4l2_subdev_routing_restriction =
    V4L2_SUBDEV_ROUTING_NO_1_TO_N
  | V4L2_SUBDEV_ROUTING_NO_N_TO_1
  | V4L2_SUBDEV_ROUTING_NO_STREAM_MIX

definition V4L2_SUBDEV_ROUTING_ONLY_1_TO_1 :: "v4l2_subdev_routing_restriction set" where
  "V4L2_SUBDEV_ROUTING_ONLY_1_TO_1 =
     {V4L2_SUBDEV_ROUTING_NO_1_TO_N, V4L2_SUBDEV_ROUTING_NO_N_TO_1}"

text \<open>
  \<open>v4l2_subdev_routing_validate\<close> belongs to the V4L2 core and is not among
  the sources; the switch functions take it as a parameter: a function of the
  device, the requested routes and the restrictions that returns a status.
\<close>

type_synonym routing_validate =
  "xvip_device \<Rightarrow> v4l2_subdev_route list \<Rightarrow> v4l2_subdev_routing_restriction set \<Rightarrow> int"

text \<open>
  Modelled from the spec: \<open>media_entity_pipeline\<close> and
  \<open>media_entity_is_streaming\<close> (media controller core, not among the sources).
  The specification speaks of an entity that is currently part of an active
  pipeline; the first returns that pipeline or NULL, the second tells whether
  there is one.
\<close>

definition media_entity_pipeline :: "xvip_device \<Rightarrow> nat option" where
  "media_entity_pipeline sd = entity_pipe sd"

definition media_entity_is_streaming :: "xvip_device \<Rightarrow> bool" where
  "media_entity_is_streaming sd = (entity_pipe sd \<noteq> None)"

text \<open>
  Modelled from the spec: \<open>v4l2_subdev_set_routing_with_fmt\<close> (V4L2 core, not
  among the sources). On success it replaces the routing table of the state by
  the requested routes and gives every stream of an active route the default
  format.
\<close>

definition v4l2_subdev_set_routing_with_fmt ::
  "'fmt v4l2_subdev_state \<Rightarrow> v4l2_subdev_route list \<Rightarrow> 'fmt \<Rightarrow> int \<times> 'fmt v4l2_subdev_state" where
  "v4l2_subdev_set_routing_with_fmt state routes fmt =
     (0, state\<lparr>routing := routes,
               stream_formats :=
                 concat (map (\<lambda>route. [((sink_pad route, sink_stream route), fmt),
                                        ((source_pad route, source_stream route), fmt)])
                             (filter (\<lambda>route. route_flags route AND
                                                V4L2_SUBDEV_ROUTE_FL_ACTIVE \<noteq> 0) routes))\<rparr>)"

text \<open>
  The AXI4-Stream switch embeds a \<open>struct xvip_device\<close>. The static default
  format of each driver is built from macros of headers that are not at hand;
  it is the argument \<open>default_format\<close>.
\<close>

record xvswitch_device =
  xvip :: xvip_device
  tdest_routing :: bool

text \<open>\<open>__xvsw_set_routing\<close> (named \<open>uu_...\<close> here).\<close>

definition uu_xvsw_set_routing ::
  "routing_validate \<Rightarrow> 'fmt \<Rightarrow> xvswitch_device \<Rightarrow> 'fmt v4l2_subdev_state \<Rightarrow>
   v4l2_subdev_route list \<Rightarrow> int \<times> 'fmt v4l2_subdev_state" where
  "uu_xvsw_set_routing validate default_format xvsw state routes =
     (let disallow =
            (if tdest_routing xvsw then {V4L2_SUBDEV_ROUTING_NO_1_TO_N}
             else V4L2_SUBDEV_ROUTING_ONLY_1_TO_1 \<union> {V4L2_SUBDEV_ROUTING_NO_STREAM_MIX});
          ret = validate (xvip xvsw) routes disallow
      in if ret \<noteq> 0 then (ret, state)
         else v4l2_subdev_set_routing_with_fmt state routes default_format)"

text \<open>
  The loop of \<open>xvsw_init_cfg\<close> and \<open>xsw_init_cfg\<close> fills the array
  \<open>routes[0 .. num_routes - 1]\<close>, which \<open>kcalloc\<close> has zeroed: entry \<open>i\<close> gets
  \<open>sink_pad = i\<close>, \<open>source_pad = i + num_sinks\<close> (32-bit addition) and the
  active flag.
\<close>

definition init_cfg_routes :: "u32 \<Rightarrow> u32 \<Rightarrow> v4l2_subdev_route list" where
  "init_cfg_routes n_sinks num_routes =
     map (\<lambda>i. \<lparr>sink_pad = of_nat i, sink_stream = 0,
                source_pad = of_nat i + n_sinks, source_stream = 0,
                route_flags = V4L2_SUBDEV_ROUTE_FL_ACTIVE\<rparr>)
         [0 ..< unat num_routes]"

definition xvsw_init_cfg ::
  "environment \<Rightarrow> event list \<Rightarrow> routing_validate \<Rightarrow> 'fmt \<Rightarrow> xvswitch_device \<Rightarrow>
   'fmt v4l2_subdev_state \<Rightarrow> int \<times> 'fmt v4l2_subdev_state" where
  "xvsw_init_cfg env tr validate default_format xvsw state =
     (let num_routes = min (num_sinks (xvip xvsw)) (num_sources (xvip xvsw))
      in if kcalloc_fails env tr then (- ENOMEM, state)
         else uu_xvsw_set_routing validate default_format xvsw state
                (init_cfg_routes (num_sinks (xvip xvsw)) num_routes))"

definition xvsw_set_routing ::
  "routing_validate \<Rightarrow> 'fmt \<Rightarrow> xvswitch_device \<Rightarrow> 'fmt v4l2_subdev_state \<Rightarrow>
   v4l2_subdev_format_whence \<Rightarrow> v4l2_subdev_route list \<Rightarrow> int \<times> 'fmt v4l2_subdev_state" where
  "xvsw_set_routing validate default_format xvsw state which routes =
     (if which = V4L2_SUBDEV_FORMAT_ACTIVE \<and> media_entity_pipeline (xvip xvsw) \<noteq> None
      then (- EBUSY, state)
      else uu_xvsw_set_routing validate default_format xvsw state routes)"

text \<open>
  The video switch: \<open>struct xswitch_device\<close> has the one member \<open>xvip\<close>, so
  its functions take the \<open>xvip_device\<close>. \<open>__xsw_set_routing\<close> is named
  \<open>uu_...\<close> here.
\<close>

definition uu_xsw_set_routing ::
  "routing_validate \<Rightarrow> 'fmt \<Rightarrow> xvip_device \<Rightarrow> 'fmt v4l2_subdev_state \<Rightarrow>
   v4l2_subdev_route list \<Rightarrow> int \<times> 'fmt v4l2_subdev_state" where
  "uu_xsw_set_routing validate default_format xsw state routes =
     (let ret = validate xsw routes
                  {V4L2_SUBDEV_ROUTING_NO_N_TO_1, V4L2_SUBDEV_ROUTING_NO_STREAM_MIX}
      in if ret \<noteq> 0 then (ret, state)
         else v4l2_subdev_set_routing_with_fmt state routes default_format)"

definition xsw_init_cfg ::
  "environment \<Rightarrow> event list \<Rightarrow> routing_validate \<Rightarrow> 'fmt \<Rightarrow> xvip_device \<Rightarrow>
   'fmt v4l2_subdev_state \<Rightarrow> int \<times> 'fmt v4l2_subdev_state" where
  "xsw_init_cfg env tr validate default_format xsw state =
     (let num_routes = min (num_sinks xsw) (num_sources xsw)
      in if kcalloc_fails env tr then (- ENOMEM, state)
         else uu_xsw_set_routing validate default_format xsw state
                (init_cfg_routes (num_sinks xsw) num_routes))"

definition xsw_set_routing ::
  "routing_validate \<Rightarrow> 'fmt \<Rightarrow> xvip_device \<Rightarrow> 'fmt v4l2_subdev_state \<Rightarrow>
   v4l2_subdev_format_whence \<Rightarrow> v4l2_subdev_route list \<Rightarrow> int \<times> 'fmt v4l2_subdev_state" where
  "xsw_set_routing validate default_format xsw state which routes =
     (if which = V4L2_SUBDEV_FORMAT_ACTIVE \<and> media_entity_is_streaming xsw
      then (- EBUSY, state)
      else uu_xsw_set_routing validate default_format xsw state routes)"

text \<open>
  Switches to run the functions on: two sinks and three sources, part of
  pipeline 1 (\<open>ex_switch (Some 1)\<close>) or of none, and a validation that accepts
  a request when no route changes the stream identifier.
\<close>

definition ex_switch :: "nat option \<Rightarrow> xvip_device" where
  "ex_switch pipe =
     \<lparr>sd_entity = 7,
      pads = map (\<lambda>i. ex_pad 7 MEDIA_ENTITY_TYPE_V4L2_SUBDEV (of_nat i)
                         (if i < 2 then MEDIA_PAD_FL_SINK else MEDIA_PAD_FL_SOURCE))
                 [0 ..< 5],
      links = [], entity_pipe = pipe, num_sinks = 2, num_sources = 3,
      ops = None\<rparr>"

definition ex_validate :: routing_validate where
  "ex_validate sd routes disallow =
     (if list_all (\<lambda>route. sink_stream route = source_stream route) routes then 0
      else - EINVAL)"

definition ex_route :: "u32 \<Rightarrow> u32 \<Rightarrow> u32 \<Rightarrow> u32 \<Rightarrow> v4l2_subdev_route" where
  "ex_route p s q t =
     \<lparr>sink_pad = p, sink_stream = s, source_pad = q, source_stream = t,
      route_flags = V4L2_SUBDEV_ROUTE_FL_ACTIVE\<rparr>"

definition ex_routing_state :: "v4l2_subdev_route list \<Rightarrow> unit v4l2_subdev_state" where
  "ex_routing_state routes = \<lparr>routing = routes, stream_formats = []\<rparr>"

section \<open>Format lookup: results\<close>

lemma format_by_code_loop_None:
  "(format_by_code_loop busv fs c = None) = (\<forall>f \<in> set fs. busv (code f) \<noteq> c)"
  by (induction fs) auto

lemma format_by_fourcc_loop_None:
  "(format_by_fourcc_loop pixv fs c = None) = (\<forall>f \<in> set fs. pixv (fourcc f) \<noteq> c)"
  by (induction fs) auto

lemma format_by_fourcc_loop_Some:
  "format_by_fourcc_loop pixv fs c = Some f \<Longrightarrow> f \<in> set fs \<and> pixv (fourcc f) = c"
  by (induction fs) (auto split: if_splits)

lemma xvip_video_formats_first:
  "xvip_video_formats ! 0 \<in> set xvip_video_formats \<and>
   fourcc (xvip_video_formats ! 0) = V4L2_PIX_FMT_NV12"
  by (simp add: xvip_video_formats_def)

text \<open>
  C10. The lookup by 4CC is total and never yields an error pointer: it
  always returns an entry of the table. When no entry has the requested 4CC it
  returns the first entry, whose 4CC is NV12 and not the YUYV that the
  function's comment names. The lookup by media bus code returns
  \<open>ERR_PTR(-EINVAL)\<close> when no entry has the requested code.
\<close>

theorem xvip_get_format_by_fourcc_total:
  "(\<exists>f. xvip_get_format_by_fourcc pixv c = Inr f \<and> f \<in> set xvip_video_formats) \<and>
   ((\<forall>f \<in> set xvip_video_formats. pixv (fourcc f) \<noteq> c) \<longrightarrow>
      xvip_get_format_by_fourcc pixv c = Inr (xvip_video_formats ! 0) \<and>
      fourcc (xvip_video_formats ! 0) = V4L2_PIX_FMT_NV12 \<and>
      fourcc (xvip_video_formats ! 0) \<noteq> V4L2_PIX_FMT_YUYV) \<and>
   ((\<forall>f \<in> set xvip_video_formats. busv (code f) \<noteq> k) \<longrightarrow>
      xvip_get_format_by_code busv k = Inl (- EINVAL))"
proof (intro conjI impI)
  show "\<exists>f. xvip_get_format_by_fourcc pixv c = Inr f \<and> f \<in> set xvip_video_formats"
  proof (cases "format_by_fourcc_loop pixv xvip_video_formats c")
    case None
    then show ?thesis
      using xvip_video_formats_first by (simp add: xvip_get_format_by_fourcc_def)
  next
    case (Some f)
    then show ?thesis
      using format_by_fourcc_loop_Some [OF Some]
      by (simp add: xvip_get_format_by_fourcc_def)
  qed
next
  assume "\<forall>f \<in> set xvip_video_formats. pixv (fourcc f) \<noteq> c"
  then have "format_by_fourcc_loop pixv xvip_video_formats c = None"
    by (simp add: format_by_fourcc_loop_None)
  then show "xvip_get_format_by_fourcc pixv c = Inr (xvip_video_formats ! 0)"
    by (simp add: xvip_get_format_by_fourcc_def)
next
  show "fourcc (xvip_video_formats ! 0) = V4L2_PIX_FMT_NV12"
    using xvip_video_formats_first by simp
next
  show "fourcc (xvip_video_formats ! 0) \<noteq> V4L2_PIX_FMT_YUYV"
    using xvip_video_formats_first by simp
next
  assume "\<forall>f \<in> set xvip_video_formats. busv (code f) \<noteq> k"
  then have "format_by_code_loop busv xvip_video_formats k = None"
    by (simp add: format_by_code_loop_None)
  then show "xvip_get_format_by_code busv k = Inl (- EINVAL)"
    by (simp add: xvip_get_format_by_code_def)
qed

theorem xvip_get_format_by_fourcc_total_witness:
  "xvip_get_format_by_fourcc (\<lambda>_. 0) 1 = Inr (xvip_video_formats ! 0) \<and>
   fourcc (xvip_video_formats ! 0) = V4L2_PIX_FMT_NV12 \<and>
   xvip_get_format_by_code (\<lambda>_. 0) 1 = Inl (- EINVAL)"
  using xvip_get_format_by_fourcc_total [of "\<lambda>_. 0" 1 "\<lambda>_. 0" 1]
  by simp

section \<open>Pipeline stream management: the order of the calls\<close>

lemma start_each_dma_eq:
  "start_each_dma ty ds cur tr = (0, cur + length ds, tr @ dma_starts (dmas_of ty ds))"
  by (induction ds arbitrary: cur tr)
     (simp_all add: xvip_dma_start_def dma_starts_def dmas_of_def)

lemma stop_each_dma_eq:
  "stop_each_dma ty ds tr = tr @ dma_stops (dmas_of ty ds)"
  by (induction ds arbitrary: tr)
     (simp_all add: xvip_dma_stop_def dma_stops_def dmas_of_def)

lemma snd_enable_branch:
  "snd (xvip_pipeline_enable_branch env dma tr) = tr @ branch_enable_calls dma"
  by (simp add: xvip_pipeline_enable_branch_def branch_enable_calls_def call_def
           split: option.splits prod.splits)

lemma snd_disable_branch:
  "snd (xvip_pipeline_disable_branch env dma tr) = tr @ branch_disable_calls dma"
  by (simp add: xvip_pipeline_disable_branch_def branch_disable_calls_def call_def
           split: option.splits prod.splits)

lemma enable_branch_ok_remote:
  "fst (xvip_pipeline_enable_branch env dma tr) = 0 \<Longrightarrow> xvip_dma_remote_subdev dma \<noteq> None"
  by (cases "xvip_dma_remote_subdev dma") (simp_all add: xvip_pipeline_enable_branch_def ENXIO_def)

lemma disable_each_branch_eq:
  "disable_each_branch env ty ds tr = tr @ concat (map branch_disable_calls (dmas_of ty ds))"
  by (induction ds arbitrary: tr) (simp_all add: snd_disable_branch dmas_of_def)

text \<open>
  The branch loop either enables every branch, or stops on the first engine
  whose branch fails, the cursor being the position of that engine.
\<close>

lemma enable_each_branch_ok:
  "fst (enable_each_branch env ty ds cur tr) = 0 \<Longrightarrow>
   enable_each_branch env ty ds cur tr =
     (0, cur + length ds, tr @ concat (map branch_enable_calls (dmas_of ty ds))) \<and>
   list_all (\<lambda>dma. xvip_dma_remote_subdev dma \<noteq> None) (dmas_of ty ds)"
proof (induction ds arbitrary: cur tr)
  case Nil
  then show ?case by (simp add: dmas_of_def)
next
  case (Cons dma rest)
  show ?case
  proof (cases "dma_vfl_dir dma = ty")
    case False
    with Cons.prems have "fst (enable_each_branch env ty rest (Suc cur) tr) = 0" by simp
    from Cons.IH [OF this] False show ?thesis by (simp add: dmas_of_def)
  next
    case True
    obtain ret tr' where e: "xvip_pipeline_enable_branch env dma tr = (ret, tr')"
      by (cases "xvip_pipeline_enable_branch env dma tr")
    have tr': "tr' = tr @ branch_enable_calls dma"
      using snd_enable_branch [of env dma tr] e by simp
    have ret0: "ret = 0"
      using Cons.prems True e by (cases "ret = 0") simp_all
    have rem: "xvip_dma_remote_subdev dma \<noteq> None"
      using enable_branch_ok_remote [of env dma tr] e ret0 by simp
    have step: "enable_each_branch env ty (dma # rest) cur tr =
                enable_each_branch env ty rest (Suc cur) tr'"
      using True e ret0 by simp
    have "fst (enable_each_branch env ty rest (Suc cur) tr') = 0"
      using Cons.prems step by simp
    from Cons.IH [OF this] show ?thesis
      using True rem unfolding step by (simp add: dmas_of_def tr')
  qed
qed

lemma enable_each_branch_fail:
  "fst (enable_each_branch env ty ds cur tr) \<noteq> 0 \<Longrightarrow>
   \<exists>pre bad post. enable_failed_at env ty ds cur tr pre bad post"
proof (induction ds arbitrary: cur tr)
  case Nil
  then show ?case by simp
next
  case (Cons dma rest)
  show ?case
  proof (cases "dma_vfl_dir dma = ty")
    case False
    with Cons.prems have "fst (enable_each_branch env ty rest (Suc cur) tr) \<noteq> 0" by simp
    from Cons.IH [OF this] obtain pre bad post
      where "enable_failed_at env ty rest (Suc cur) tr pre bad post" by blast
    with False have "enable_failed_at env ty (dma # rest) cur tr (dma # pre) bad post"
      by (auto simp: enable_failed_at_def dmas_of_def)
    then show ?thesis by blast
  next
    case True
    obtain ret tr' where e: "xvip_pipeline_enable_branch env dma tr = (ret, tr')"
      by (cases "xvip_pipeline_enable_branch env dma tr")
    have tr': "tr' = tr @ branch_enable_calls dma"
      using snd_enable_branch [of env dma tr] e by simp
    show ?thesis
    proof (cases "ret = 0")
      case False
      with True e tr' have "enable_failed_at env ty (dma # rest) cur tr [] dma rest"
        by (simp add: enable_failed_at_def dmas_of_def)
      then show ?thesis by blast
    next
      case ret0: True
      have rem: "xvip_dma_remote_subdev dma \<noteq> None"
        using enable_branch_ok_remote [of env dma tr] e ret0 by simp
      have step: "enable_each_branch env ty (dma # rest) cur tr =
                  enable_each_branch env ty rest (Suc cur) tr'"
        using True e ret0 by simp
      have "fst (enable_each_branch env ty rest (Suc cur) tr') \<noteq> 0"
        using Cons.prems step by simp
      from Cons.IH [OF this] obtain pre bad post
        where f: "enable_failed_at env ty rest (Suc cur) tr' pre bad post" by blast
      have "enable_failed_at env ty (dma # rest) cur tr (dma # pre) bad post"
        using f True rem unfolding enable_failed_at_def step
        by (auto simp: dmas_of_def tr')
      then show ?thesis by blast
    qed
  qed
qed

lemma dmas_of_append: "dmas_of ty (xs @ ys) = dmas_of ty xs @ dmas_of ty ys"
  by (simp add: dmas_of_def)

lemma dmas_of_rev: "dmas_of ty (rev xs) = rev (dmas_of ty xs)"
  by (simp add: dmas_of_def rev_filter)

lemma xvip_pipeline_start_ok:
  assumes "fst (xvip_pipeline_start env pipe tr) = 0"
  shows "xvip_pipeline_start env pipe tr =
           (0, tr @ dma_starts (dmas_of VFL_DIR_RX (dmas pipe)) @
               concat (map branch_enable_calls (dmas_of VFL_DIR_RX (dmas pipe))) @
               dma_starts (dmas_of VFL_DIR_TX (dmas pipe))) \<and>
         list_all (\<lambda>dma. xvip_dma_remote_subdev dma \<noteq> None) (dmas_of VFL_DIR_RX (dmas pipe))"
proof -
  let ?tr1 = "tr @ dma_starts (dmas_of VFL_DIR_RX (dmas pipe))"
  let ?e = "enable_each_branch env VFL_DIR_RX (dmas pipe) 0 ?tr1"
  have e0: "fst ?e = 0"
  proof (rule ccontr)
    assume "fst ?e \<noteq> 0"
    then have "fst (xvip_pipeline_start env pipe tr) \<noteq> 0"
      by (cases ?e)
         (simp add: xvip_pipeline_start_def start_each_dma_eq err_branch_def err_output_def)
    with assms show False by simp
  qed
  from enable_each_branch_ok [OF e0] show ?thesis
    by (simp add: xvip_pipeline_start_def start_each_dma_eq)
qed

lemma xvip_pipeline_start_fail:
  assumes "fst (xvip_pipeline_start env pipe tr) \<noteq> 0"
  shows "\<exists>ok bad rest.
           dmas_of VFL_DIR_RX (dmas pipe) = ok @ bad # rest \<and>
           xvip_pipeline_start env pipe tr =
             (fst (xvip_pipeline_enable_branch env bad
                     (tr @ dma_starts (dmas_of VFL_DIR_RX (dmas pipe)) @
                      concat (map branch_enable_calls ok))),
              tr @ dma_starts (dmas_of VFL_DIR_RX (dmas pipe)) @
                concat (map branch_enable_calls ok) @ branch_enable_calls bad @
                concat (map branch_disable_calls (rev ok)) @
                dma_stops (rev (dmas_of VFL_DIR_RX (dmas pipe))))"
proof -
  let ?tr1 = "tr @ dma_starts (dmas_of VFL_DIR_RX (dmas pipe))"
  let ?e = "enable_each_branch env VFL_DIR_RX (dmas pipe) 0 ?tr1"
  have e1: "fst ?e \<noteq> 0"
  proof
    assume "fst ?e = 0"
    from enable_each_branch_ok [OF this]
    have "fst (xvip_pipeline_start env pipe tr) = 0"
      by (simp add: xvip_pipeline_start_def start_each_dma_eq)
    with assms show False by simp
  qed
  from enable_each_branch_fail [OF e1] obtain pre bad post
    where f: "enable_failed_at env VFL_DIR_RX (dmas pipe) 0 ?tr1 pre bad post" by blast
  have d: "dmas pipe = pre @ bad # post" and b: "dma_vfl_dir bad = VFL_DIR_RX"
    using f unfolding enable_failed_at_def by blast+
  have e: "?e = (fst (xvip_pipeline_enable_branch env bad
                        (?tr1 @ concat (map branch_enable_calls (dmas_of VFL_DIR_RX pre)))),
                 length pre,
                 ?tr1 @ concat (map branch_enable_calls (dmas_of VFL_DIR_RX pre)) @
                   branch_enable_calls bad)"
    using f unfolding enable_failed_at_def by (elim conjE) simp
  have ne: "fst (xvip_pipeline_enable_branch env bad
                   (?tr1 @ concat (map branch_enable_calls (dmas_of VFL_DIR_RX pre)))) \<noteq> 0"
    using e1 e by simp
  have outs: "dmas_of VFL_DIR_RX (dmas pipe) =
              dmas_of VFL_DIR_RX pre @ bad # dmas_of VFL_DIR_RX post"
    using d b by (simp add: dmas_of_def)
  have cr: "continue_reverse (length pre) (dmas pipe) = rev pre"
    using d by (simp add: continue_reverse_def)
  have cr2: "continue_reverse (length (dmas pipe)) (dmas pipe) = rev (dmas pipe)"
    by (simp add: continue_reverse_def)
  have "xvip_pipeline_start env pipe tr =
          (fst (xvip_pipeline_enable_branch env bad
                  (?tr1 @ concat (map branch_enable_calls (dmas_of VFL_DIR_RX pre)))),
           ?tr1 @ concat (map branch_enable_calls (dmas_of VFL_DIR_RX pre)) @
             branch_enable_calls bad @
             concat (map branch_disable_calls (rev (dmas_of VFL_DIR_RX pre))) @
             dma_stops (rev (dmas_of VFL_DIR_RX (dmas pipe))))"
    using ne
    by (simp add: xvip_pipeline_start_def start_each_dma_eq e err_branch_def err_output_def
                  cr cr2 disable_each_branch_eq stop_each_dma_eq dmas_of_rev)
  with outs show ?thesis
    by (intro exI [where x = "dmas_of VFL_DIR_RX pre"] exI [where x = bad]
              exI [where x = "dmas_of VFL_DIR_RX post"]) simp
qed

text \<open>
  The same two outcomes read from the steps: when the branch enables of the
  engines of the direction all return 0 the loop returns 0, and when they
  return 0 up to an engine \<open>bad\<close> whose branch enable fails the loop stops
  there with the status of that step.
\<close>

lemma enable_each_branch_steps_ok:
  "branch_steps_ok env (dmas_of ty ds) tr \<Longrightarrow>
   enable_each_branch env ty ds cur tr =
     (0, cur + length ds, tr @ concat (map branch_enable_calls (dmas_of ty ds)))"
proof (induction ds arbitrary: cur tr)
  case Nil
  then show ?case by (simp add: dmas_of_def)
next
  case (Cons dma rest)
  show ?case
  proof (cases "dma_vfl_dir dma = ty")
    case False
    with Cons.prems have "branch_steps_ok env (dmas_of ty rest) tr"
      by (simp add: dmas_of_def)
    from Cons.IH [OF this] False show ?thesis by (simp add: dmas_of_def)
  next
    case True
    with Cons.prems have z: "fst (xvip_pipeline_enable_branch env dma tr) = 0"
      and r: "branch_steps_ok env (dmas_of ty rest) (tr @ branch_enable_calls dma)"
      by (simp_all add: dmas_of_def snd_enable_branch)
    obtain ret tr' where e: "xvip_pipeline_enable_branch env dma tr = (ret, tr')"
      by (cases "xvip_pipeline_enable_branch env dma tr")
    have tr': "tr' = tr @ branch_enable_calls dma"
      using snd_enable_branch [of env dma tr] e by simp
    from Cons.IH [OF r] True z e tr' show ?thesis by (simp add: dmas_of_def)
  qed
qed

lemma enable_each_branch_steps_fail:
  "dmas_of ty ds = ok @ bad # later \<Longrightarrow> branch_steps_ok env ok tr \<Longrightarrow>
   fst (xvip_pipeline_enable_branch env bad
          (tr @ concat (map branch_enable_calls ok))) \<noteq> 0 \<Longrightarrow>
   \<exists>pre post.
     ds = pre @ bad # post \<and> dmas_of ty pre = ok \<and>
     enable_each_branch env ty ds cur tr =
       (fst (xvip_pipeline_enable_branch env bad
               (tr @ concat (map branch_enable_calls ok))),
        cur + length pre,
        tr @ concat (map branch_enable_calls ok) @ branch_enable_calls bad)"
proof (induction ds arbitrary: ok cur tr)
  case Nil
  then show ?case by (simp add: dmas_of_def)
next
  case (Cons dma rest)
  show ?case
  proof (cases "dma_vfl_dir dma = ty")
    case False
    with Cons.prems(1) have "dmas_of ty rest = ok @ bad # later" by (simp add: dmas_of_def)
    from Cons.IH [OF this Cons.prems(2,3), of "Suc cur"] obtain pre post where
      "rest = pre @ bad # post" "dmas_of ty pre = ok"
      "enable_each_branch env ty rest (Suc cur) tr =
         (fst (xvip_pipeline_enable_branch env bad
                 (tr @ concat (map branch_enable_calls ok))),
          Suc cur + length pre,
          tr @ concat (map branch_enable_calls ok) @ branch_enable_calls bad)"
      by blast
    with False have
      "dma # rest = (dma # pre) @ bad # post \<and> dmas_of ty (dma # pre) = ok \<and>
       enable_each_branch env ty (dma # rest) cur tr =
         (fst (xvip_pipeline_enable_branch env bad
                 (tr @ concat (map branch_enable_calls ok))),
          cur + length (dma # pre),
          tr @ concat (map branch_enable_calls ok) @ branch_enable_calls bad)"
      by (simp add: dmas_of_def)
    then show ?thesis by blast
  next
    case True
    with Cons.prems(1) have d: "dma # dmas_of ty rest = ok @ bad # later"
      by (simp add: dmas_of_def)
    obtain ret tr' where e: "xvip_pipeline_enable_branch env dma tr = (ret, tr')"
      by (cases "xvip_pipeline_enable_branch env dma tr")
    have tr': "tr' = tr @ branch_enable_calls dma"
      using snd_enable_branch [of env dma tr] e by simp
    show ?thesis
    proof (cases ok)
      case Nil
      with d have b: "bad = dma" by simp
      with Cons.prems(3) Nil e have "ret \<noteq> 0" by simp
      with True e tr' b Nil have
        "dma # rest = [] @ bad # rest \<and> dmas_of ty [] = ok \<and>
         enable_each_branch env ty (dma # rest) cur tr =
           (fst (xvip_pipeline_enable_branch env bad
                   (tr @ concat (map branch_enable_calls ok))),
            cur + length ([] :: xvip_dma list),
            tr @ concat (map branch_enable_calls ok) @ branch_enable_calls bad)"
        by (simp add: dmas_of_def)
      then show ?thesis by blast
    next
      case (Cons first ok')
      with d have f: "first = dma" and r: "dmas_of ty rest = ok' @ bad # later" by simp_all
      from Cons.prems(2) Cons f e tr' have z: "ret = 0"
        and s: "branch_steps_ok env ok' tr'" by simp_all
      have b: "fst (xvip_pipeline_enable_branch env bad
                      (tr' @ concat (map branch_enable_calls ok'))) \<noteq> 0"
        using Cons.prems(3) Cons f tr' by simp
      from Cons.IH [OF r s b, of "Suc cur"] obtain pre post where
        "rest = pre @ bad # post" "dmas_of ty pre = ok'"
        "enable_each_branch env ty rest (Suc cur) tr' =
           (fst (xvip_pipeline_enable_branch env bad
                   (tr' @ concat (map branch_enable_calls ok'))),
            Suc cur + length pre,
            tr' @ concat (map branch_enable_calls ok') @ branch_enable_calls bad)"
        by blast
      with True e z tr' Cons f have
        "dma # rest = (dma # pre) @ bad # post \<and> dmas_of ty (dma # pre) = ok \<and>
         enable_each_branch env ty (dma # rest) cur tr =
           (fst (xvip_pipeline_enable_branch env bad
                   (tr @ concat (map branch_enable_calls ok))),
            cur + length (dma # pre),
            tr @ concat (map branch_enable_calls ok) @ branch_enable_calls bad)"
        by (simp add: dmas_of_def)
      then show ?thesis by blast
    qed
  qed
qed

text \<open>
  \<open>xvip_pipeline_start\<close> from its steps. When the branch enable of the
  output-direction engine \<open>bad\<close> fails after those of the engines \<open>ok\<close> before
  it returned 0, the branches of \<open>ok\<close> are disabled, last first, then all the
  output-direction engines are stopped, last first, and the status of the
  failed step is returned.
\<close>

lemma xvip_pipeline_start_failed_step:
  assumes "dmas_of VFL_DIR_RX (dmas pipe) = ok @ bad # later"
    and "branch_steps_ok env ok (tr @ dma_starts (dmas_of VFL_DIR_RX (dmas pipe)))"
    and "fst (xvip_pipeline_enable_branch env bad
                (tr @ dma_starts (dmas_of VFL_DIR_RX (dmas pipe)) @
                 concat (map branch_enable_calls ok))) \<noteq> 0"
  shows "xvip_pipeline_start env pipe tr =
           (fst (xvip_pipeline_enable_branch env bad
                   (tr @ dma_starts (dmas_of VFL_DIR_RX (dmas pipe)) @
                    concat (map branch_enable_calls ok))),
            tr @ dma_starts (dmas_of VFL_DIR_RX (dmas pipe)) @
              concat (map branch_enable_calls ok) @ branch_enable_calls bad @
              concat (map branch_disable_calls (rev ok)) @
              dma_stops (rev (dmas_of VFL_DIR_RX (dmas pipe))))"
proof -
  let ?tr1 = "tr @ dma_starts (dmas_of VFL_DIR_RX (dmas pipe))"
  have b: "fst (xvip_pipeline_enable_branch env bad
                  (?tr1 @ concat (map branch_enable_calls ok))) \<noteq> 0"
    using assms(3) by simp
  from enable_each_branch_steps_fail [OF assms(1,2) b, of 0] obtain pre post where
    d: "dmas pipe = pre @ bad # post" and o: "dmas_of VFL_DIR_RX pre = ok"
    and e: "enable_each_branch env VFL_DIR_RX (dmas pipe) 0 ?tr1 =
              (fst (xvip_pipeline_enable_branch env bad
                      (?tr1 @ concat (map branch_enable_calls ok))),
               0 + length pre,
               ?tr1 @ concat (map branch_enable_calls ok) @ branch_enable_calls bad)"
    by blast
  have cr: "continue_reverse (length pre) (dmas pipe) = rev pre"
    using d by (simp add: continue_reverse_def)
  have cr2: "continue_reverse (length (dmas pipe)) (dmas pipe) = rev (dmas pipe)"
    by (simp add: continue_reverse_def)
  show ?thesis
    using b
    by (simp add: xvip_pipeline_start_def start_each_dma_eq e err_branch_def err_output_def
                  cr cr2 disable_each_branch_eq stop_each_dma_eq dmas_of_rev o)
qed

text \<open>
  \<open>xvip_pipeline_start_dma\<close> in synchronous mode at the threshold, when a
  step fails: the log is that of the start with its rollback and the status
  \<open>s\<close> of the failed step is returned. The counters are left alone when \<open>s\<close>
  is negative, and the counter of the caller's direction is incremented when
  \<open>s\<close> is positive.
\<close>

lemma sync_start_dma_failed_step:
  assumes "mode \<noteq> XVIP_DMA_MULTI_OUT_MODE_ASYNC"
    and "input_stream_count pipe + output_stream_count pipe =
         num_inputs pipe + num_outputs pipe - 1"
    and "dmas_of VFL_DIR_RX (dmas pipe) = ok @ bad # later"
    and "branch_steps_ok env ok (tr @ dma_starts (dmas_of VFL_DIR_RX (dmas pipe)))"
    and "fst (xvip_pipeline_enable_branch env bad
                (tr @ dma_starts (dmas_of VFL_DIR_RX (dmas pipe)) @
                 concat (map branch_enable_calls ok))) = s"
    and "s \<noteq> 0"
  shows "xvip_pipeline_start_dma env mode pipe dma tr =
           (s,
            (if s < 0 then pipe
             else if dma_vfl_dir dma = VFL_DIR_RX
             then pipe\<lparr>output_stream_count := output_stream_count pipe + 1\<rparr>
             else pipe\<lparr>input_stream_count := input_stream_count pipe + 1\<rparr>),
            tr @ dma_starts (dmas_of VFL_DIR_RX (dmas pipe)) @
              concat (map branch_enable_calls ok) @ branch_enable_calls bad @
              concat (map branch_disable_calls (rev ok)) @
              dma_stops (rev (dmas_of VFL_DIR_RX (dmas pipe))))"
proof -
  have "fst (xvip_pipeline_enable_branch env bad
                (tr @ dma_starts (dmas_of VFL_DIR_RX (dmas pipe)) @
                 concat (map branch_enable_calls ok))) \<noteq> 0"
    using assms(5,6) by simp
  from xvip_pipeline_start_failed_step [OF assms(3,4) this] assms(1,2,5)
  show ?thesis
    by (simp add: xvip_pipeline_start_dma_def stream_count_inc_def)
qed

text \<open>
  C3. In synchronous mode \<open>xvip_pipeline_start_dma\<close> makes no external call
  unless the sum of the two streaming counters, before the increment, equals
  \<open>num_inputs + num_outputs - 1\<close>; it then only increments the counter of the
  caller's direction. At the threshold the first calls are the hardware starts
  of all output-direction (capture, \<open>VFL_DIR_RX\<close>) engines in list order, and
  when the start returns 0 the calls are exactly: the hardware start of every
  output-direction engine, then the branch enable of every output-direction
  engine, then the hardware start of every input-direction engine.
\<close>

theorem sync_start_dma_threshold_order:
  assumes "mode \<noteq> XVIP_DMA_MULTI_OUT_MODE_ASYNC"
  shows "(input_stream_count pipe + output_stream_count pipe \<noteq>
            num_inputs pipe + num_outputs pipe - 1 \<longrightarrow>
          xvip_pipeline_start_dma env mode pipe dma tr = (0, stream_count_inc pipe dma, tr)) \<and>
         (input_stream_count pipe + output_stream_count pipe =
            num_inputs pipe + num_outputs pipe - 1 \<longrightarrow>
          (\<exists>more. snd (snd (xvip_pipeline_start_dma env mode pipe dma tr)) =
                    tr @ dma_starts (dmas_of VFL_DIR_RX (dmas pipe)) @ more)) \<and>
         (input_stream_count pipe + output_stream_count pipe =
            num_inputs pipe + num_outputs pipe - 1 \<and>
          fst (xvip_pipeline_start_dma env mode pipe dma tr) = 0 \<longrightarrow>
          xvip_pipeline_start_dma env mode pipe dma tr =
            (0, stream_count_inc pipe dma,
             tr @ dma_starts (dmas_of VFL_DIR_RX (dmas pipe)) @
               concat (map branch_enable_calls (dmas_of VFL_DIR_RX (dmas pipe))) @
               dma_starts (dmas_of VFL_DIR_TX (dmas pipe))) \<and>
          list_all (\<lambda>dma. branch_enable_calls dma \<noteq> []) (dmas_of VFL_DIR_RX (dmas pipe)))"
proof (intro conjI impI)
  assume "input_stream_count pipe + output_stream_count pipe \<noteq>
          num_inputs pipe + num_outputs pipe - 1"
  with assms show "xvip_pipeline_start_dma env mode pipe dma tr =
                   (0, stream_count_inc pipe dma, tr)"
    by (simp add: xvip_pipeline_start_dma_def)
next
  assume thr: "input_stream_count pipe + output_stream_count pipe =
               num_inputs pipe + num_outputs pipe - 1"
  have s: "snd (snd (xvip_pipeline_start_dma env mode pipe dma tr)) =
           snd (xvip_pipeline_start env pipe tr)"
    using assms thr by (simp add: xvip_pipeline_start_dma_def split: prod.splits)
  show "\<exists>more. snd (snd (xvip_pipeline_start_dma env mode pipe dma tr)) =
               tr @ dma_starts (dmas_of VFL_DIR_RX (dmas pipe)) @ more"
  proof (cases "fst (xvip_pipeline_start env pipe tr) = 0")
    case True
    from xvip_pipeline_start_ok [OF True] show ?thesis unfolding s by simp
  next
    case False
    from xvip_pipeline_start_fail [OF False] show ?thesis unfolding s by auto
  qed
next
  assume a: "input_stream_count pipe + output_stream_count pipe =
               num_inputs pipe + num_outputs pipe - 1 \<and>
             fst (xvip_pipeline_start_dma env mode pipe dma tr) = 0"
  then have f: "fst (xvip_pipeline_start env pipe tr) = 0"
    using assms by (simp add: xvip_pipeline_start_dma_def split: prod.splits if_splits)
  from xvip_pipeline_start_ok [OF f] a assms
  show "xvip_pipeline_start_dma env mode pipe dma tr =
          (0, stream_count_inc pipe dma,
           tr @ dma_starts (dmas_of VFL_DIR_RX (dmas pipe)) @
             concat (map branch_enable_calls (dmas_of VFL_DIR_RX (dmas pipe))) @
             dma_starts (dmas_of VFL_DIR_TX (dmas pipe)))"
    by (simp add: xvip_pipeline_start_dma_def)
  from xvip_pipeline_start_ok [OF f]
  have "list_all (\<lambda>dma. xvip_dma_remote_subdev dma \<noteq> None) (dmas_of VFL_DIR_RX (dmas pipe))"
    by simp
  then show "list_all (\<lambda>dma. branch_enable_calls dma \<noteq> []) (dmas_of VFL_DIR_RX (dmas pipe))"
    by (rule list.pred_mono_strong) (auto simp: branch_enable_calls_def)
qed

theorem sync_start_dma_threshold_order_witness:
  "XVIP_DMA_MULTI_OUT_MODE_SYNC \<noteq> XVIP_DMA_MULTI_OUT_MODE_ASYNC \<and>
   xvip_pipeline_start_dma ex_env_ok XVIP_DMA_MULTI_OUT_MODE_SYNC (ex_pipe 0 1) ex_dma2 [] =
     (0, ex_pipe 0 2, []) \<and>
   xvip_pipeline_start_dma ex_env_ok XVIP_DMA_MULTI_OUT_MODE_SYNC (ex_pipe 1 1) ex_dma2 [] =
     (0, ex_pipe 1 2,
      [Dma_issue_pending 1, Dma_issue_pending 2,
       Subdev_enable_streams 10 1 1, Subdev_enable_streams 11 1 1,
       Dma_issue_pending 3])"
proof -
  have m: "XVIP_DMA_MULTI_OUT_MODE_SYNC \<noteq> XVIP_DMA_MULTI_OUT_MODE_ASYNC"
    by (simp add: XVIP_DMA_MULTI_OUT_MODE_SYNC_def XVIP_DMA_MULTI_OUT_MODE_ASYNC_def)
  have off: "input_stream_count (ex_pipe 0 1) + output_stream_count (ex_pipe 0 1) \<noteq>
             num_inputs (ex_pipe 0 1) + num_outputs (ex_pipe 0 1) - 1"
    by (simp add: ex_pipe_def)
  have on: "input_stream_count (ex_pipe 1 1) + output_stream_count (ex_pipe 1 1) =
            num_inputs (ex_pipe 1 1) + num_outputs (ex_pipe 1 1) - 1"
    by (simp add: ex_pipe_def)
  have ok: "fst (xvip_pipeline_start_dma ex_env_ok XVIP_DMA_MULTI_OUT_MODE_SYNC
                   (ex_pipe 1 1) ex_dma2 []) = 0"
    by (simp add: xvip_pipeline_start_dma_def xvip_pipeline_start_def
                  xvip_pipeline_enable_branch_def xvip_dma_remote_subdev_def
                  is_media_entity_v4l2_subdev_def xvip_dma_start_def call_def
                  XVIP_DMA_MULTI_OUT_MODE_SYNC_def XVIP_DMA_MULTI_OUT_MODE_ASYNC_def
                  ex_pipe_def ex_dma1_def ex_dma2_def ex_dma3_def ex_subdev_pad_def
                  ex_env_ok_def)
  have ev: "dma_starts (dmas_of VFL_DIR_RX (dmas (ex_pipe 1 1))) @
            concat (map branch_enable_calls (dmas_of VFL_DIR_RX (dmas (ex_pipe 1 1)))) @
            dma_starts (dmas_of VFL_DIR_TX (dmas (ex_pipe 1 1))) =
            [Dma_issue_pending 1, Dma_issue_pending 2,
             Subdev_enable_streams 10 1 1, Subdev_enable_streams 11 1 1,
             Dma_issue_pending 3]"
    by (simp add: dma_starts_def dmas_of_def branch_enable_calls_def
                  xvip_dma_remote_subdev_def is_media_entity_v4l2_subdev_def BIT_def
                  ex_pipe_def ex_dma1_def ex_dma2_def ex_dma3_def ex_subdev_pad_def)
  have i1: "stream_count_inc (ex_pipe 0 1) ex_dma2 = ex_pipe 0 2"
    and i2: "stream_count_inc (ex_pipe 1 1) ex_dma2 = ex_pipe 1 2"
    by (simp_all add: stream_count_inc_def ex_pipe_def ex_dma2_def)
  from sync_start_dma_threshold_order [OF m, of "ex_pipe 0 1" ex_env_ok ex_dma2 "[]"] off
  have a: "xvip_pipeline_start_dma ex_env_ok XVIP_DMA_MULTI_OUT_MODE_SYNC (ex_pipe 0 1)
             ex_dma2 [] = (0, ex_pipe 0 2, [])"
    by (simp add: i1)
  from sync_start_dma_threshold_order [OF m, of "ex_pipe 1 1" ex_env_ok ex_dma2 "[]"] on ok
  have b: "xvip_pipeline_start_dma ex_env_ok XVIP_DMA_MULTI_OUT_MODE_SYNC (ex_pipe 1 1)
             ex_dma2 [] =
           (0, ex_pipe 1 2,
            [Dma_issue_pending 1, Dma_issue_pending 2,
             Subdev_enable_streams 10 1 1, Subdev_enable_streams 11 1 1,
             Dma_issue_pending 3])"
    using ev by (simp add: i2)
  from m a b show ?thesis by simp
qed


text \<open>
  C5. In synchronous mode \<open>xvip_pipeline_stop_dma\<close> first decrements the
  counter of the caller's direction: the output counter for a capture engine
  (\<open>VFL_DIR_RX\<close>), the input counter for an output engine (\<open>VFL_DIR_TX\<close>), by
  one in 32-bit arithmetic, every other field of the pipeline being kept.
  Exactly when the sum of the two counters after the decrement equals
  \<open>num_inputs + num_outputs - 1\<close> it stops the pipeline, and the calls are
  then, whatever status any of them returns: the stop of every input-direction
  engine, then the branch disable of every output-direction engine, then the
  stop of every output-direction engine. Otherwise no call is made. The
  function returns no status.
\<close>

theorem sync_stop_dma_order:
  assumes "mode \<noteq> XVIP_DMA_MULTI_OUT_MODE_ASYNC"
  shows "(dma_vfl_dir dma = VFL_DIR_RX \<longrightarrow>
            fst (xvip_pipeline_stop_dma env mode pipe dma tr) =
              pipe\<lparr>output_stream_count := output_stream_count pipe - 1\<rparr>) \<and>
         (dma_vfl_dir dma = VFL_DIR_TX \<longrightarrow>
            fst (xvip_pipeline_stop_dma env mode pipe dma tr) =
              pipe\<lparr>input_stream_count := input_stream_count pipe - 1\<rparr>) \<and>
         snd (xvip_pipeline_stop_dma env mode pipe dma tr) =
           (if input_stream_count pipe + output_stream_count pipe - 1 =
               num_inputs pipe + num_outputs pipe - 1
            then tr @ dma_stops (dmas_of VFL_DIR_TX (dmas pipe)) @
                   concat (map branch_disable_calls (dmas_of VFL_DIR_RX (dmas pipe))) @
                   dma_stops (dmas_of VFL_DIR_RX (dmas pipe))
            else tr)"
proof (cases "dma_vfl_dir dma")
  case VFL_DIR_RX
  have "input_stream_count pipe + (output_stream_count pipe - 1) =
        input_stream_count pipe + output_stream_count pipe - 1"
    by simp
  then show ?thesis
    using assms VFL_DIR_RX
    by (simp add: xvip_pipeline_stop_dma_def Let_def stream_count_dec_def
                  xvip_pipeline_stop_def stop_each_dma_eq disable_each_branch_eq)
next
  case VFL_DIR_TX
  have "input_stream_count pipe - 1 + output_stream_count pipe =
        input_stream_count pipe + output_stream_count pipe - 1"
    by simp
  then show ?thesis
    using assms VFL_DIR_TX
    by (simp add: xvip_pipeline_stop_dma_def Let_def stream_count_dec_def
                  xvip_pipeline_stop_def stop_each_dma_eq disable_each_branch_eq)
qed

theorem sync_stop_dma_order_witness:
  "XVIP_DMA_MULTI_OUT_MODE_SYNC \<noteq> XVIP_DMA_MULTI_OUT_MODE_ASYNC \<and>
   xvip_pipeline_stop_dma ex_env_fail XVIP_DMA_MULTI_OUT_MODE_SYNC (ex_pipe 1 2) ex_dma2 [] =
     (ex_pipe 1 1,
      [Dma_terminate_all 3,
       Subdev_disable_streams 10 1 1, Subdev_disable_streams 11 1 1,
       Dma_terminate_all 1, Dma_terminate_all 2]) \<and>
   xvip_pipeline_stop_dma ex_env_fail XVIP_DMA_MULTI_OUT_MODE_SYNC (ex_pipe 1 2) ex_dma3 [] =
     (ex_pipe 0 2,
      [Dma_terminate_all 3,
       Subdev_disable_streams 10 1 1, Subdev_disable_streams 11 1 1,
       Dma_terminate_all 1, Dma_terminate_all 2]) \<and>
   xvip_pipeline_stop_dma ex_env_fail XVIP_DMA_MULTI_OUT_MODE_SYNC (ex_pipe 1 1) ex_dma3 [] =
     (ex_pipe 0 1, []) \<and>
   xvip_pipeline_stop_dma ex_env_fail XVIP_DMA_MULTI_OUT_MODE_SYNC (ex_pipe 1 1) ex_dma1 [] =
     (ex_pipe 1 0, [])"
proof -
  have m: "XVIP_DMA_MULTI_OUT_MODE_SYNC \<noteq> XVIP_DMA_MULTI_OUT_MODE_ASYNC"
    by (simp add: XVIP_DMA_MULTI_OUT_MODE_SYNC_def XVIP_DMA_MULTI_OUT_MODE_ASYNC_def)
  have dir: "dma_vfl_dir ex_dma1 = VFL_DIR_RX" "dma_vfl_dir ex_dma2 = VFL_DIR_RX"
    "dma_vfl_dir ex_dma3 = VFL_DIR_TX"
    by (simp_all add: ex_dma1_def ex_dma2_def ex_dma3_def)
  have d: "(ex_pipe 1 2)\<lparr>output_stream_count := output_stream_count (ex_pipe 1 2) - 1\<rparr> =
           ex_pipe 1 1"
    "(ex_pipe 1 2)\<lparr>input_stream_count := input_stream_count (ex_pipe 1 2) - 1\<rparr> =
     ex_pipe 0 2"
    "(ex_pipe 1 1)\<lparr>input_stream_count := input_stream_count (ex_pipe 1 1) - 1\<rparr> =
     ex_pipe 0 1"
    "(ex_pipe 1 1)\<lparr>output_stream_count := output_stream_count (ex_pipe 1 1) - 1\<rparr> =
     ex_pipe 1 0"
    by (simp_all add: ex_pipe_def)
  have ev: "dma_stops (dmas_of VFL_DIR_TX (dmas (ex_pipe a b))) @
            concat (map branch_disable_calls (dmas_of VFL_DIR_RX (dmas (ex_pipe a b)))) @
            dma_stops (dmas_of VFL_DIR_RX (dmas (ex_pipe a b))) =
            [Dma_terminate_all 3,
             Subdev_disable_streams 10 1 1, Subdev_disable_streams 11 1 1,
             Dma_terminate_all 1, Dma_terminate_all 2]" for a b
    by (simp add: dma_stops_def dmas_of_def branch_disable_calls_def
                  xvip_dma_remote_subdev_def is_media_entity_v4l2_subdev_def BIT_def
                  ex_pipe_def ex_dma1_def ex_dma2_def ex_dma3_def ex_subdev_pad_def)
  have c: "input_stream_count (ex_pipe 1 2) + output_stream_count (ex_pipe 1 2) - 1 =
           num_inputs (ex_pipe 1 2) + num_outputs (ex_pipe 1 2) - 1"
    "input_stream_count (ex_pipe 1 1) + output_stream_count (ex_pipe 1 1) - 1 \<noteq>
     num_inputs (ex_pipe 1 1) + num_outputs (ex_pipe 1 1) - 1"
    by (simp_all add: ex_pipe_def)
  note t = sync_stop_dma_order [OF m, of _ ex_env_fail _ "[]"]
  have r1: "xvip_pipeline_stop_dma ex_env_fail XVIP_DMA_MULTI_OUT_MODE_SYNC (ex_pipe 1 2)
              ex_dma2 [] =
            (ex_pipe 1 1,
             [Dma_terminate_all 3,
              Subdev_disable_streams 10 1 1, Subdev_disable_streams 11 1 1,
              Dma_terminate_all 1, Dma_terminate_all 2])"
    using t [of ex_dma2 "ex_pipe 1 2"] dir c ev [of 1 2]
    by (simp add: d prod_eq_iff)
  have r2: "xvip_pipeline_stop_dma ex_env_fail XVIP_DMA_MULTI_OUT_MODE_SYNC (ex_pipe 1 2)
              ex_dma3 [] =
            (ex_pipe 0 2,
             [Dma_terminate_all 3,
              Subdev_disable_streams 10 1 1, Subdev_disable_streams 11 1 1,
              Dma_terminate_all 1, Dma_terminate_all 2])"
    using t [of ex_dma3 "ex_pipe 1 2"] dir c ev [of 1 2]
    by (simp add: d prod_eq_iff)
  have r3: "xvip_pipeline_stop_dma ex_env_fail XVIP_DMA_MULTI_OUT_MODE_SYNC (ex_pipe 1 1)
              ex_dma3 [] = (ex_pipe 0 1, [])"
    using t [of ex_dma3 "ex_pipe 1 1"] dir c
    by (simp add: d prod_eq_iff)
  have r4: "xvip_pipeline_stop_dma ex_env_fail XVIP_DMA_MULTI_OUT_MODE_SYNC (ex_pipe 1 1)
              ex_dma1 [] = (ex_pipe 1 0, [])"
    using t [of ex_dma1 "ex_pipe 1 1"] dir c
    by (simp add: d prod_eq_iff)
  from m r1 r2 r3 r4 show ?thesis by simp
qed

text \<open>
  C7. In asynchronous mode \<open>xvip_pipeline_start_dma\<close> starts the hardware
  channel of the one engine it is called for and then enables the branch of
  that engine; when the branch enable fails it stops that channel again and
  returns the status. \<open>xvip_pipeline_stop_dma\<close> disables the branch of that
  engine and then stops its channel. No other call is made, whatever the
  other engines of the pipeline are, and the pipeline with its counters is
  left as it was.
\<close>

theorem async_start_stop_dma_local:
  assumes "mode = XVIP_DMA_MULTI_OUT_MODE_ASYNC"
  shows "xvip_pipeline_start_dma env mode pipe dma tr =
           (fst (xvip_pipeline_enable_branch env dma (tr @ [Dma_issue_pending (dma_chan dma)])),
            pipe,
            tr @ [Dma_issue_pending (dma_chan dma)] @ branch_enable_calls dma @
              (if fst (xvip_pipeline_enable_branch env dma
                         (tr @ [Dma_issue_pending (dma_chan dma)])) \<noteq> 0
               then [Dma_terminate_all (dma_chan dma)] else [])) \<and>
         xvip_pipeline_stop_dma env mode pipe dma tr =
           (pipe, tr @ branch_disable_calls dma @ [Dma_terminate_all (dma_chan dma)])"
proof -
  obtain ret tr2 where
    e: "xvip_pipeline_enable_branch env dma (tr @ [Dma_issue_pending (dma_chan dma)]) =
        (ret, tr2)"
    by (cases "xvip_pipeline_enable_branch env dma (tr @ [Dma_issue_pending (dma_chan dma)])")
  have tr2: "tr2 = tr @ [Dma_issue_pending (dma_chan dma)] @ branch_enable_calls dma"
    using snd_enable_branch [of env dma "tr @ [Dma_issue_pending (dma_chan dma)]"] e by simp
  show ?thesis
    using assms e tr2
    by (simp add: xvip_pipeline_start_dma_def xvip_pipeline_stop_dma_def xvip_dma_start_def
                  xvip_dma_stop_def snd_disable_branch)
qed

theorem async_start_stop_dma_local_witness:
  "xvip_pipeline_start_dma ex_env_fail XVIP_DMA_MULTI_OUT_MODE_ASYNC (ex_pipe 0 0) ex_dma2 [] =
     (- 5, ex_pipe 0 0,
      [Dma_issue_pending 2, Subdev_enable_streams 11 1 1, Dma_terminate_all 2]) \<and>
   xvip_pipeline_start_dma ex_env_fail XVIP_DMA_MULTI_OUT_MODE_ASYNC (ex_pipe 0 0) ex_dma1 [] =
     (0, ex_pipe 0 0, [Dma_issue_pending 1, Subdev_enable_streams 10 1 1]) \<and>
   xvip_pipeline_stop_dma ex_env_fail XVIP_DMA_MULTI_OUT_MODE_ASYNC (ex_pipe 0 0) ex_dma1 [] =
     (ex_pipe 0 0, [Subdev_disable_streams 10 1 1, Dma_terminate_all 1])"
  using async_start_stop_dma_local
          [of XVIP_DMA_MULTI_OUT_MODE_ASYNC ex_env_fail "ex_pipe 0 0" ex_dma2 "[]"]
        async_start_stop_dma_local
          [of XVIP_DMA_MULTI_OUT_MODE_ASYNC ex_env_fail "ex_pipe 0 0" ex_dma1 "[]"]
  by (simp add: xvip_pipeline_enable_branch_def branch_enable_calls_def
                branch_disable_calls_def xvip_dma_remote_subdev_def
                is_media_entity_v4l2_subdev_def call_def BIT_def
                ex_dma1_def ex_dma2_def ex_subdev_pad_def ex_env_fail_def)

section \<open>Stream propagation: results\<close>

lemma issue_until_fail_ok:
  "fst (issue_until_fail env evs tr) = 0 \<Longrightarrow> issue_until_fail env evs tr = (0, tr @ evs)"
proof (induction evs arbitrary: tr)
  case Nil
  then show ?case by simp
next
  case (Cons ev rest)
  have z: "status env tr ev = 0"
    using Cons.prems by (cases "status env tr ev = 0") (simp_all add: call_def)
  then have step: "issue_until_fail env (ev # rest) tr = issue_until_fail env rest (tr @ [ev])"
    by (simp add: call_def)
  with Cons.prems have "fst (issue_until_fail env rest (tr @ [ev])) = 0" by simp
  from Cons.IH [OF this] show ?case unfolding step by simp
qed

lemma issue_until_fail_fail:
  "fst (issue_until_fail env evs tr) \<noteq> 0 \<Longrightarrow>
   \<exists>before bad rest.
     evs = before @ bad # rest \<and>
     issue_until_fail env evs tr = (status env (tr @ before) bad, tr @ before @ [bad]) \<and>
     issue_until_fail env before tr = (0, tr @ before)"
proof (induction evs arbitrary: tr)
  case Nil
  then show ?case by simp
next
  case (Cons ev rest)
  show ?case
  proof (cases "status env tr ev = 0")
    case False
    then have "ev # rest = [] @ ev # rest \<and>
               issue_until_fail env (ev # rest) tr = (status env (tr @ []) ev, tr @ [] @ [ev]) \<and>
               issue_until_fail env [] tr = (0, tr @ [])"
      by (simp add: call_def)
    then show ?thesis by blast
  next
    case True
    then have step: "issue_until_fail env (ev # rest) tr =
                     issue_until_fail env rest (tr @ [ev])"
      by (simp add: call_def)
    with Cons.prems have "fst (issue_until_fail env rest (tr @ [ev])) \<noteq> 0" by simp
    from Cons.IH [OF this] obtain dn bad rest' where
      r: "rest = dn @ bad # rest'"
      and i: "issue_until_fail env rest (tr @ [ev]) =
              (status env ((tr @ [ev]) @ dn) bad, (tr @ [ev]) @ dn @ [bad])"
      and d: "issue_until_fail env dn (tr @ [ev]) = (0, (tr @ [ev]) @ dn)"
      by blast
    have "ev # rest = (ev # dn) @ bad # rest' \<and>
          issue_until_fail env (ev # rest) tr =
            (status env (tr @ ev # dn) bad, tr @ (ev # dn) @ [bad]) \<and>
          issue_until_fail env (ev # dn) tr = (0, tr @ ev # dn)"
      using r i d True unfolding step by (simp add: call_def)
    then show ?thesis by blast
  qed
qed

lemma connected_links_loop_eq:
  "connected_links_loop env sd streams enable ls tr =
   issue_until_fail env (map (remote_call sd streams enable) (filter (link_followed sd streams) ls)) tr"
proof (induction ls arbitrary: tr)
  case Nil
  then show ?case by simp
next
  case (Cons link rest)
  show ?case
  proof (cases "link_followed sd streams link")
    case False
    then show ?thesis
      using Cons.IH [of tr]
      by (auto simp: link_followed_def link_local_pad_def link_remote_pad_def Let_def)
  next
    case True
    then have c: "link_flags link AND MEDIA_LNK_FL_ENABLED \<noteq> 0"
      "link_flags link AND MEDIA_LNK_FL_LINK_TYPE = MEDIA_LNK_FL_DATA_LINK"
      "streams (pad_index (link_local_pad sd link)) \<noteq> 0"
      "is_media_entity_v4l2_subdev (link_remote_pad sd link)"
      by (simp_all add: link_followed_def)
    obtain ret tr' where e: "call env (remote_call sd streams enable link) tr = (ret, tr')"
      by (cases "call env (remote_call sd streams enable link) tr")
    have "connected_links_loop env sd streams enable (link # rest) tr =
          (if ret \<noteq> 0 then (ret, tr') else connected_links_loop env sd streams enable rest tr')"
      using c e
      by (auto simp: link_local_pad_def link_remote_pad_def remote_call_def Let_def)
    then show ?thesis
      using True e Cons.IH [of tr'] by simp
  qed
qed

text \<open>
  Below 64 the bit of the source and the bit of the mask agree; at 64 the shift
  of the source has wrapped to bit 0, which is why the selection is stated for
  stream identifiers below 64.
\<close>

lemma BIT_wraps: "BIT 64 = BIT 0 \<and> BIT 0 = 1"
  by (simp add: BIT_def)

lemma and_BIT_iff:
  "unat s < 64 \<Longrightarrow> (streams_mask AND BIT s \<noteq> 0) = stream_in_mask s streams_mask"
  by (simp add: BIT_def stream_in_mask_def bit_iff_and_push_bit_not_eq_0)

lemma or_BIT_eq: "unat s < 64 \<Longrightarrow> m OR BIT s = set_bit (unat s) m"
  by (simp add: BIT_def set_bit_eq_or)

lemma collect_routes_eq:
  "list_all (\<lambda>route. unat (sink_stream route) < 64 \<and> unat (source_stream route) < 64) rs \<Longrightarrow>
   collect_routes pad streams_mask rs streams p =
   fold (\<lambda>(q, s) m. if q = p then set_bit (unat s) m else m)
        (concat (map (route_selects pad streams_mask) rs)) (streams p)"
  by (induction rs arbitrary: streams)
     (simp_all add: Let_def and_BIT_iff or_BIT_eq route_selects_def)

lemma tagged_xor_iff:
  "pad_tagged a \<Longrightarrow> pad_tagged b \<Longrightarrow>
   (pad_flags a XOR pad_flags b = MEDIA_PAD_FL_SINK OR MEDIA_PAD_FL_SOURCE) =
   opposite_polarity a b"
  by (auto simp: pad_tagged_def opposite_polarity_def pad_is_sink_def pad_is_source_def
                 MEDIA_PAD_FL_SINK_def MEDIA_PAD_FL_SOURCE_def)

lemma collect_pads_eq:
  "pad_tagged local_pad \<Longrightarrow> list_all pad_tagged ps \<Longrightarrow>
   collect_pads local_pad streams_mask ps streams p =
   (if list_ex (\<lambda>other. pad_index other = p \<and> opposite_polarity local_pad other) ps
    then streams_mask else streams p)"
proof (induction ps arbitrary: streams)
  case Nil
  then show ?case by simp
next
  case (Cons other rest)
  then have t: "pad_tagged other" and r: "list_all pad_tagged rest" by simp_all
  show ?case
    using Cons.IH [OF Cons.prems(1) r] tagged_xor_iff [OF Cons.prems(1) t]
    by auto
qed

lemma collected_streams_eq:
  assumes "state = None \<Longrightarrow> unat pad < length (pads sd) \<and> list_all pad_tagged (pads sd)"
    and "\<And>st. state = Some st \<Longrightarrow> stream_ids_below_64 (routing st)"
  shows "collected_streams sd state pad streams_mask = selected_streams sd state pad streams_mask"
proof (cases state)
  case None
  with assms have i: "unat pad < length (pads sd)" and t: "list_all pad_tagged (pads sd)"
    by simp_all
  from i t have l: "pad_tagged (pads sd ! unat pad)"
    by (simp add: list_all_length)
  show ?thesis
    using None collect_pads_eq [OF l t]
    by (auto simp: collected_streams_def selected_streams_def selected_legacy_def)
next
  case (Some st)
  have f: "for_each_active_route (routing st) = filter route_active (routing st)"
    by (simp add: for_each_active_route_def route_active_def [abs_def])
  have "stream_ids_below_64 (routing st)" using assms(2) Some by simp
  then have r: "list_all (\<lambda>route. unat (sink_stream route) < 64 \<and>
                                unat (source_stream route) < 64)
                  (filter route_active (routing st))"
    by (auto simp: stream_ids_below_64_def list_all_iff)
  show ?thesis
    using Some collect_routes_eq [OF r]
    by (auto simp: collected_streams_def selected_streams_def mask_of_selected_def
                   selected_by_routes_def f)
qed

lemma remote_calls_not_dev:
  "Dev_enable_streams e p m \<notin> set (remote_calls sd sel enable) \<and>
   Dev_disable_streams e p m \<notin> set (remote_calls sd sel enable)"
  by (auto simp: remote_calls_def remote_call_def)

lemma propagation_eq:
  "uu_xvip_enable_connected_streams env sd state pad streams_mask enable tr =
   (if kcalloc_fails env tr then (- ENOMEM, tr)
    else issue_until_fail env
           (remote_calls sd (collected_streams sd state pad streams_mask) enable) tr)"
  by (simp add: uu_xvip_enable_connected_streams_def connected_links_loop_eq remote_calls_def)

lemma issue_until_fail_prefix:
  "\<exists>k. snd (issue_until_fail env evs tr) = tr @ take k evs"
proof (cases "fst (issue_until_fail env evs tr) = 0")
  case True
  from issue_until_fail_ok [OF True] have "snd (issue_until_fail env evs tr) = tr @ take (length evs) evs"
    by simp
  then show ?thesis by blast
next
  case False
  from issue_until_fail_fail [OF False] obtain dn bad rest where
    "evs = dn @ bad # rest"
    "issue_until_fail env evs tr = (status env (tr @ dn) bad, tr @ dn @ [bad])"
    by blast
  then have "snd (issue_until_fail env evs tr) = tr @ take (Suc (length dn)) evs"
    by simp
  then show ?thesis by blast
qed

lemma bit_fold_selected:
  "bit (fold (\<lambda>(q, s) m. if q = p then set_bit (unat s) m else m) sel (m0 :: u64)) n =
   (bit m0 n \<or> (\<exists>s. (p, s) \<in> set sel \<and> unat s = n \<and> n < 64))"
proof (induction sel arbitrary: m0)
  case Nil
  then show ?case by simp
next
  case (Cons x sel)
  obtain q s where x: "x = (q, s)" by (cases x)
  show ?case
    unfolding x using Cons.IH [of "if q = p then set_bit (unat s) m0 else m0"]
    by (auto simp: bit_set_bit_iff)
qed

text \<open>
  C6. The remote calls that a propagation request on \<open>(sd, pad, mask)\<close>
  issues are the calls of the followed links, in the order of the links, with
  the selection of the specification: with a state, the streams named by the
  active routes that have \<open>(pad, s)\<close>, \<open>s\<close> in the mask, at one end, taken at
  the other end; without a state, the whole mask on every pad of polarity
  opposite to that of \<open>pad\<close>. A link is followed when it is an enabled data
  link, the selection on its local pad is not empty and its remote entity is
  a V4L2 subdevice. The calls are issued up to and including the first that
  fails; when none fails all of them are issued. When the allocation of the
  work array fails no call is issued. The routed case is stated for routing
  tables whose active routes have stream identifiers below 64, the width of a
  stream mask; the legacy case for a pad of the entity, every pad of the
  entity being tagged sink or source.
\<close>

theorem connected_streams_selection:
  assumes "state = None \<Longrightarrow> unat pad < length (pads sd) \<and> list_all pad_tagged (pads sd)"
    and "\<And>st. state = Some st \<Longrightarrow> stream_ids_below_64 (routing st)"
  shows "uu_xvip_enable_connected_streams env sd state pad streams_mask enable tr =
           (if kcalloc_fails env tr then (- ENOMEM, tr)
            else issue_until_fail env
                   (remote_calls sd (selected_streams sd state pad streams_mask) enable) tr) \<and>
         (\<not> kcalloc_fails env tr \<and>
          fst (uu_xvip_enable_connected_streams env sd state pad streams_mask enable tr) = 0 \<longrightarrow>
          snd (uu_xvip_enable_connected_streams env sd state pad streams_mask enable tr) =
            tr @ remote_calls sd (selected_streams sd state pad streams_mask) enable) \<and>
         (\<exists>k. snd (uu_xvip_enable_connected_streams env sd state pad streams_mask enable tr) =
                tr @ take k (remote_calls sd (selected_streams sd state pad streams_mask)
                               enable)) \<and>
         (\<forall>st p n. state = Some st \<longrightarrow>
            bit (selected_streams sd state pad streams_mask p) n =
              (n < 64 \<and>
               (\<exists>route \<in> set (routing st). route_active route \<and>
                  (sink_pad route = pad \<and> stream_in_mask (sink_stream route) streams_mask \<and>
                   source_pad route = p \<and> unat (source_stream route) = n \<or>
                   source_pad route = pad \<and> stream_in_mask (source_stream route) streams_mask \<and>
                   sink_pad route = p \<and> unat (sink_stream route) = n))))"
proof -
  let ?calls = "remote_calls sd (selected_streams sd state pad streams_mask) enable"
  have eq: "uu_xvip_enable_connected_streams env sd state pad streams_mask enable tr =
            (if kcalloc_fails env tr then (- ENOMEM, tr)
             else issue_until_fail env ?calls tr)"
    using collected_streams_eq [of state pad sd streams_mask] assms
    by (simp add: propagation_eq)
  have ok: "\<not> kcalloc_fails env tr \<and>
            fst (uu_xvip_enable_connected_streams env sd state pad streams_mask enable tr) = 0 \<longrightarrow>
            snd (uu_xvip_enable_connected_streams env sd state pad streams_mask enable tr) =
              tr @ ?calls"
  proof
    assume a: "\<not> kcalloc_fails env tr \<and>
               fst (uu_xvip_enable_connected_streams env sd state pad streams_mask enable tr) = 0"
    then have "fst (issue_until_fail env ?calls tr) = 0" using eq by auto
    from issue_until_fail_ok [OF this] a
    show "snd (uu_xvip_enable_connected_streams env sd state pad streams_mask enable tr) =
          tr @ ?calls"
      using eq by auto
  qed
  have pre: "\<exists>k. snd (uu_xvip_enable_connected_streams env sd state pad streams_mask enable tr) =
                 tr @ take k ?calls"
  proof (cases "kcalloc_fails env tr")
    case True
    then have "snd (uu_xvip_enable_connected_streams env sd state pad streams_mask enable tr) =
               tr @ take 0 ?calls"
      unfolding eq by simp
    then show ?thesis by blast
  next
    case False
    then show ?thesis
      unfolding eq using issue_until_fail_prefix [of env ?calls tr] by simp
  qed
  have bits: "\<forall>st p n. state = Some st \<longrightarrow>
            bit (selected_streams sd state pad streams_mask p) n =
              (n < 64 \<and>
               (\<exists>route \<in> set (routing st). route_active route \<and>
                  (sink_pad route = pad \<and> stream_in_mask (sink_stream route) streams_mask \<and>
                   source_pad route = p \<and> unat (source_stream route) = n \<or>
                   source_pad route = pad \<and> stream_in_mask (source_stream route) streams_mask \<and>
                   sink_pad route = p \<and> unat (sink_stream route) = n)))"
    by (auto simp: selected_streams_def mask_of_selected_def bit_fold_selected
                   selected_by_routes_def route_selects_def split: if_splits)
  from eq ok pre bits show ?thesis by blast
qed

theorem connected_streams_selection_witness:
  "unat (0 :: u32) < length (pads ex_sd) \<and> list_all pad_tagged (pads ex_sd) \<and>
   stream_ids_below_64 (routing ex_state) \<and>
   uu_xvip_enable_connected_streams ex_env_ok ex_sd (None :: unit v4l2_subdev_state option)
     0 5 True [] =
     (0, [Subdev_enable_streams 11 0 5, Subdev_enable_streams 13 0 5]) \<and>
   uu_xvip_enable_connected_streams ex_env_ok ex_sd (Some ex_state) 0 3 False [] =
     (0, [Subdev_disable_streams 11 0 4, Subdev_disable_streams 13 0 4]) \<and>
   uu_xvip_enable_connected_streams ex_env_fail ex_sd (Some ex_state) 0 3 True [] =
     (- 5, [Subdev_enable_streams 11 0 4])"
proof -
  have h: "unat (0 :: u32) < length (pads ex_sd) \<and> list_all pad_tagged (pads ex_sd)"
    by (simp add: ex_sd_def ex_pad_def pad_tagged_def)
  have b64: "stream_ids_below_64 (routing ex_state)"
    by (simp add: stream_ids_below_64_def ex_state_def)
  have s1: "selected_streams ex_sd (None :: unit v4l2_subdev_state option) 0 5 =
            (\<lambda>p. if p = 1 then 5 else 0)"
    by (rule ext)
       (simp add: selected_streams_def selected_legacy_def opposite_polarity_def
                  pad_is_sink_def pad_is_source_def ex_sd_def ex_pad_def
                  MEDIA_PAD_FL_SINK_def MEDIA_PAD_FL_SOURCE_def)
  have s2: "selected_streams ex_sd (Some ex_state) 0 3 = (\<lambda>p. if p = 1 then 4 else 0)"
    by (rule ext)
       (simp add: selected_streams_def mask_of_selected_def selected_by_routes_def
                  route_selects_def route_active_def stream_in_mask_def set_bit_eq_or
                  ex_state_def V4L2_SUBDEV_ROUTE_FL_ACTIVE_def)
  have c: "remote_calls ex_sd (\<lambda>p. if p = 1 then m else 0) en =
           (if m = 0 then []
            else if en then [Subdev_enable_streams 11 0 m, Subdev_enable_streams 13 0 m]
            else [Subdev_disable_streams 11 0 m, Subdev_disable_streams 13 0 m])" for m en
    by (simp add: remote_calls_def remote_call_def link_followed_def link_local_pad_def
                  link_remote_pad_def is_media_entity_v4l2_subdev_def ex_sd_def ex_pad_def
                  MEDIA_LNK_FL_ENABLED_def MEDIA_LNK_FL_LINK_TYPE_def
                  MEDIA_LNK_FL_DATA_LINK_def)
  from connected_streams_selection
         [of "None :: unit v4l2_subdev_state option" 0 ex_sd ex_env_ok 5 True "[]"] h
  have a: "uu_xvip_enable_connected_streams ex_env_ok ex_sd
             (None :: unit v4l2_subdev_state option) 0 5 True [] =
           (0, [Subdev_enable_streams 11 0 5, Subdev_enable_streams 13 0 5])"
    by (simp add: s1 c ex_env_ok_def call_def)
  from connected_streams_selection [of "Some ex_state" 0 ex_sd ex_env_ok 3 False "[]"] b64
  have b: "uu_xvip_enable_connected_streams ex_env_ok ex_sd (Some ex_state) 0 3 False [] =
           (0, [Subdev_disable_streams 11 0 4, Subdev_disable_streams 13 0 4])"
    by (simp add: s2 c ex_env_ok_def call_def)
  from connected_streams_selection [of "Some ex_state" 0 ex_sd ex_env_fail 3 True "[]"] b64
  have d: "uu_xvip_enable_connected_streams ex_env_fail ex_sd (Some ex_state) 0 3 True [] =
           (- 5, [Subdev_enable_streams 11 0 4])"
    by (simp add: s2 c ex_env_fail_def call_def)
  from h b64 a b d show ?thesis by simp
qed



text \<open>
  C1 as stated (the device's disable hook is called whatever the propagation
  returns) does not hold of \<open>xvip_disable_streams\<close>: on the subdevice
  \<open>ex_sd\<close>, which has a disable hook, a disable request on pad 1 whose
  propagation to subdevice 10 fails with -5 returns -5 right after the failed
  remote call, and the device's disable hook has not been called.
\<close>

theorem xvip_disable_streams_hook_skipped_counterexample:
  "has_disable_streams ex_sd \<and>
   xvip_disable_streams ex_env_fail ex_sd (None :: unit v4l2_subdev_state option) 1 1 [] =
     (- 5, [Subdev_disable_streams 10 1 1]) \<and>
   Dev_disable_streams (sd_entity ex_sd) 1 1 \<notin>
     set (snd (xvip_disable_streams ex_env_fail ex_sd
                 (None :: unit v4l2_subdev_state option) 1 1 []))"
proof -
  have s: "collected_streams ex_sd (None :: unit v4l2_subdev_state option) 1 1 =
           (\<lambda>p. if p = 0 then 1 else 0)"
    by (rule ext)
       (simp add: collected_streams_def ex_sd_def ex_pad_def
                  MEDIA_PAD_FL_SINK_def MEDIA_PAD_FL_SOURCE_def)
  have c: "remote_calls ex_sd (\<lambda>p. if p = 0 then 1 else 0) False =
           [Subdev_disable_streams 10 1 1]"
    by (simp add: remote_calls_def remote_call_def link_followed_def link_local_pad_def
                  link_remote_pad_def is_media_entity_v4l2_subdev_def ex_sd_def ex_pad_def
                  MEDIA_LNK_FL_ENABLED_def MEDIA_LNK_FL_LINK_TYPE_def
                  MEDIA_LNK_FL_DATA_LINK_def)
  have r: "xvip_disable_streams ex_env_fail ex_sd (None :: unit v4l2_subdev_state option)
             1 1 [] = (- 5, [Subdev_disable_streams 10 1 1])"
    by (simp add: xvip_disable_streams_def xvip_disable_connected_streams_def propagation_eq
                  s c call_def ex_env_fail_def)
  have h: "has_disable_streams ex_sd"
    by (simp add: has_disable_streams_def ex_sd_def)
  from h r show ?thesis by simp
qed

text \<open>
  C1, amended. \<open>xvip_disable_streams\<close> first propagates the disable to the
  connected neighbour subdevices; the propagation never calls the device's
  own hook. When the propagation fails, its status is returned at once and the
  device's disable hook is not called. When the propagation returns 0, the
  device's disable hook, if the device has one, is called next and its status
  is the status returned; a device without the hook returns 0.
\<close>

theorem xvip_disable_streams_stops_on_error:
  "(let fwd = xvip_disable_connected_streams env sd state pad streams_mask tr;
        hook = Dev_disable_streams (sd_entity sd) pad streams_mask;
        res = xvip_disable_streams env sd state pad streams_mask tr
    in (\<exists>calls. snd fwd = tr @ calls \<and> hook \<notin> set calls) \<and>
       (fst fwd \<noteq> 0 \<longrightarrow> res = fwd) \<and>
       (fst fwd = 0 \<and> has_disable_streams sd \<longrightarrow>
          res = (status env (snd fwd) hook, snd fwd @ [hook])) \<and>
       (fst fwd = 0 \<and> \<not> has_disable_streams sd \<longrightarrow> res = (0, snd fwd)))"
proof -
  let ?fwd = "xvip_disable_connected_streams env sd state pad streams_mask tr"
  let ?hook = "Dev_disable_streams (sd_entity sd) pad streams_mask"
  let ?res = "xvip_disable_streams env sd state pad streams_mask tr"
  let ?calls = "remote_calls sd (collected_streams sd state pad streams_mask) False"
  have peq: "?fwd = (if kcalloc_fails env tr then (- ENOMEM, tr)
                      else issue_until_fail env ?calls tr)"
    by (simp add: xvip_disable_connected_streams_def propagation_eq)
  have "\<exists>k. snd ?fwd = tr @ take k ?calls"
  proof (cases "kcalloc_fails env tr")
    case True
    then have "snd ?fwd = tr @ take 0 ?calls" unfolding peq by simp
    then show ?thesis by blast
  next
    case False
    then show ?thesis
      unfolding peq using issue_until_fail_prefix [of env ?calls tr] by simp
  qed
  then obtain k where k: "snd ?fwd = tr @ take k ?calls" by blast
  have "?hook \<notin> set (take k ?calls)"
    using remote_calls_not_dev [of "sd_entity sd" pad streams_mask sd
            "collected_streams sd state pad streams_mask" False]
    by (blast dest: in_set_takeD)
  with k have a: "\<exists>calls. snd ?fwd = tr @ calls \<and> ?hook \<notin> set calls" by blast
  have b: "fst ?fwd \<noteq> 0 \<longrightarrow> ?res = ?fwd"
    by (cases ?fwd) (simp add: xvip_disable_streams_def)
  have c: "fst ?fwd = 0 \<and> has_disable_streams sd \<longrightarrow>
           ?res = (status env (snd ?fwd) ?hook, snd ?fwd @ [?hook])"
    by (cases ?fwd) (simp add: xvip_disable_streams_def call_def)
  have d: "fst ?fwd = 0 \<and> \<not> has_disable_streams sd \<longrightarrow> ?res = (0, snd ?fwd)"
    by (cases ?fwd) (simp add: xvip_disable_streams_def)
  from a b c d show ?thesis unfolding Let_def by blast
qed

theorem xvip_disable_streams_stops_on_error_witness:
  "xvip_disable_streams ex_env_ok ex_sd (None :: unit v4l2_subdev_state option) 1 1 [] =
     (0, [Subdev_disable_streams 10 1 1, Dev_disable_streams 5 1 1]) \<and>
   xvip_disable_streams ex_env_fail ex_sd (Some ex_state) 1 4 [] =
     (- 5, [Subdev_disable_streams 10 1 1])"
proof -
  have h: "has_disable_streams ex_sd"
    by (simp add: has_disable_streams_def ex_sd_def)
  have e: "sd_entity ex_sd = 5" by (simp add: ex_sd_def)
  have s1: "collected_streams ex_sd (None :: unit v4l2_subdev_state option) 1 1 =
            (\<lambda>p. if p = 0 then 1 else 0)"
    by (rule ext)
       (simp add: collected_streams_def ex_sd_def ex_pad_def
                  MEDIA_PAD_FL_SINK_def MEDIA_PAD_FL_SOURCE_def)
  have s2: "collected_streams ex_sd (Some ex_state) 1 4 = (\<lambda>p. if p = 0 then 1 else 0)"
    by (rule ext)
       (simp add: collected_streams_def for_each_active_route_def BIT_def Let_def
                  ex_state_def V4L2_SUBDEV_ROUTE_FL_ACTIVE_def)
  have c: "remote_calls ex_sd (\<lambda>p. if p = 0 then 1 else 0) False =
           [Subdev_disable_streams 10 1 1]"
    by (simp add: remote_calls_def remote_call_def link_followed_def link_local_pad_def
                  link_remote_pad_def is_media_entity_v4l2_subdev_def ex_sd_def ex_pad_def
                  MEDIA_LNK_FL_ENABLED_def MEDIA_LNK_FL_LINK_TYPE_def
                  MEDIA_LNK_FL_DATA_LINK_def)
  have p1: "xvip_disable_connected_streams ex_env_ok ex_sd
              (None :: unit v4l2_subdev_state option) 1 1 [] =
            (0, [Subdev_disable_streams 10 1 1])"
    by (simp add: xvip_disable_connected_streams_def propagation_eq s1 c call_def
                  ex_env_ok_def)
  have p2: "xvip_disable_connected_streams ex_env_fail ex_sd (Some ex_state) 1 4 [] =
            (- 5, [Subdev_disable_streams 10 1 1])"
    by (simp add: xvip_disable_connected_streams_def propagation_eq s2 c call_def
                  ex_env_fail_def)
  have st: "status ex_env_ok [Subdev_disable_streams 10 1 1] (Dev_disable_streams 5 1 1) = 0"
    by (simp add: ex_env_ok_def)
  from xvip_disable_streams_stops_on_error
         [of ex_env_ok ex_sd "None :: unit v4l2_subdev_state option" 1 1 "[]"]
  have a: "xvip_disable_streams ex_env_ok ex_sd (None :: unit v4l2_subdev_state option)
             1 1 [] =
           (0, [Subdev_disable_streams 10 1 1, Dev_disable_streams 5 1 1])"
    by (simp add: Let_def p1 h e st)
  from xvip_disable_streams_stops_on_error
         [of ex_env_fail ex_sd "Some ex_state" 1 4 "[]"]
  have b: "xvip_disable_streams ex_env_fail ex_sd (Some ex_state) 1 4 [] =
           (- 5, [Subdev_disable_streams 10 1 1])"
    by (simp add: Let_def p2)
  from a b show ?thesis by simp
qed

section \<open>Routing of the switches: results\<close>

text \<open>
  C8. While the entity of a switch is part of a pipeline, \<open>set_routing\<close> on
  the active configuration returns \<open>-EBUSY\<close> for every requested route set,
  whatever the validation would say of it, and the state, with its routing
  table, is the one passed in. This holds for the AXI4-Stream switch
  (\<open>xvsw_set_routing\<close>) and for the video switch (\<open>xsw_set_routing\<close>).
\<close>

theorem set_routing_busy:
  "(entity_pipe (xvip xvsw) \<noteq> None \<longrightarrow>
      xvsw_set_routing validate default_format xvsw state V4L2_SUBDEV_FORMAT_ACTIVE routes =
        (- EBUSY, state)) \<and>
   (entity_pipe xsw \<noteq> None \<longrightarrow>
      xsw_set_routing validate default_format xsw state V4L2_SUBDEV_FORMAT_ACTIVE routes =
        (- EBUSY, state))"
  by (simp add: xvsw_set_routing_def xsw_set_routing_def media_entity_pipeline_def
                media_entity_is_streaming_def)

theorem set_routing_busy_witness:
  "entity_pipe (ex_switch (Some 1)) \<noteq> None \<and>
   xvsw_set_routing ex_validate () \<lparr>xvip = ex_switch (Some 1), tdest_routing = False\<rparr>
     (ex_routing_state [ex_route 0 0 2 0]) V4L2_SUBDEV_FORMAT_ACTIVE [ex_route 1 0 3 5] =
     (- 16, ex_routing_state [ex_route 0 0 2 0]) \<and>
   xsw_set_routing ex_validate () (ex_switch (Some 1))
     (ex_routing_state [ex_route 0 0 2 0]) V4L2_SUBDEV_FORMAT_ACTIVE [ex_route 1 0 3 0] =
     (- 16, ex_routing_state [ex_route 0 0 2 0]) \<and>
   fst (xsw_set_routing ex_validate () (ex_switch None)
          (ex_routing_state [ex_route 0 0 2 0]) V4L2_SUBDEV_FORMAT_ACTIVE [ex_route 1 0 3 0]) = 0"
proof -
  have p: "entity_pipe (ex_switch (Some 1)) \<noteq> None"
    by (simp add: ex_switch_def)
  have x: "xvip \<lparr>xvip = ex_switch (Some 1), tdest_routing = False\<rparr> = ex_switch (Some 1)"
    by simp
  have idle: "fst (xsw_set_routing ex_validate () (ex_switch None)
                (ex_routing_state [ex_route 0 0 2 0]) V4L2_SUBDEV_FORMAT_ACTIVE
                [ex_route 1 0 3 0]) = 0"
    by (simp add: xsw_set_routing_def uu_xsw_set_routing_def media_entity_is_streaming_def
                  v4l2_subdev_set_routing_with_fmt_def ex_switch_def ex_validate_def
                  ex_route_def)
  from set_routing_busy
         [where xvsw = "\<lparr>xvip = ex_switch (Some 1), tdest_routing = False\<rparr>"
            and xsw = "ex_switch (Some 1)" and validate = ex_validate
            and default_format = "()" and state = "ex_routing_state [ex_route 0 0 2 0]"
            and routes = "[ex_route 1 0 3 0]"]
       set_routing_busy
         [where xvsw = "\<lparr>xvip = ex_switch (Some 1), tdest_routing = False\<rparr>"
            and xsw = "ex_switch (Some 1)" and validate = ex_validate
            and default_format = "()" and state = "ex_routing_state [ex_route 0 0 2 0]"
            and routes = "[ex_route 1 0 3 5]"]
  show ?thesis
    using p idle unfolding x by (simp add: EBUSY_def)
qed

lemma init_cfg_routes_length: "length (init_cfg_routes n_sinks num_routes) = unat num_routes"
  by (simp add: init_cfg_routes_def)

lemma init_cfg_routes_nth:
  "i < unat num_routes \<Longrightarrow>
   init_cfg_routes n_sinks num_routes ! i =
     \<lparr>sink_pad = of_nat i, sink_stream = 0, source_pad = of_nat i + n_sinks,
      source_stream = 0, route_flags = V4L2_SUBDEV_ROUTE_FL_ACTIVE\<rparr>"
  by (simp add: init_cfg_routes_def)

lemma unat_min_word: "unat (min (a :: u32) b) = min (unat a) (unat b)"
  by (simp add: min_def word_le_nat_alt)

lemma unat_of_nat_u32: "i < unat (n :: u32) \<Longrightarrow> unat (of_nat i :: u32) = i"
proof -
  assume "i < unat n"
  moreover have "unat n < 2 ^ 32" using unsigned_less [of n] by simp
  ultimately have "i < 2 ^ 32" by simp
  then show ?thesis by (simp add: unat_of_nat)
qed

lemma unat_source_pad:
  assumes "i < unat (n_sources :: u32)" and "unat n_sinks + unat n_sources \<le> 2 ^ 32"
  shows "unat (of_nat i + (n_sinks :: u32)) = i + unat n_sinks"
proof -
  have i: "unat (of_nat i :: u32) = i" using assms(1) by (rule unat_of_nat_u32)
  have "unat (of_nat i :: u32) + unat n_sinks < 2 ^ LENGTH(32)"
    using assms i by simp
  then have "unat ((of_nat i :: u32) + n_sinks) = unat (of_nat i :: u32) + unat n_sinks"
    by (rule iffD1 [OF unat_add_lem])
  with i show ?thesis by simp
qed

text \<open>
  C9. \<open>xvsw_init_cfg\<close> and \<open>xsw_init_cfg\<close> either fail and leave the state
  as it was, or return 0 and leave as routing table the default table of the
  switch. They return 0 when the allocation succeeds and the validation
  accepts the default table. The default table has exactly
  \<open>min(num_sinks, num_sources)\<close> routes; route \<open>i\<close> is active and maps sink pad
  \<open>i\<close>, stream 0, to source pad \<open>i + num_sinks\<close>, stream 0, where the addition
  is the 32-bit one of the source and is the addition of natural numbers when
  \<open>num_sinks + num_sources\<close> does not exceed 32 bits.
\<close>

theorem init_cfg_default_routing:
  "(let table = init_cfg_routes (num_sinks (xvip xvsw))
                  (min (num_sinks (xvip xvsw)) (num_sources (xvip xvsw)));
        res = xvsw_init_cfg env tr validate default_format xvsw state
    in (fst res \<noteq> 0 \<longrightarrow> snd res = state) \<and>
       (fst res = 0 \<longrightarrow> routing (snd res) = table) \<and>
       (\<not> kcalloc_fails env tr \<and>
        validate (xvip xvsw) table
          (if tdest_routing xvsw then {V4L2_SUBDEV_ROUTING_NO_1_TO_N}
           else V4L2_SUBDEV_ROUTING_ONLY_1_TO_1 \<union> {V4L2_SUBDEV_ROUTING_NO_STREAM_MIX}) = 0 \<longrightarrow>
        fst res = 0)) \<and>
   (let table = init_cfg_routes (num_sinks xsw) (min (num_sinks xsw) (num_sources xsw));
        res = xsw_init_cfg env tr validate default_format xsw state
    in (fst res \<noteq> 0 \<longrightarrow> snd res = state) \<and>
       (fst res = 0 \<longrightarrow> routing (snd res) = table) \<and>
       (\<not> kcalloc_fails env tr \<and>
        validate xsw table
          {V4L2_SUBDEV_ROUTING_NO_N_TO_1, V4L2_SUBDEV_ROUTING_NO_STREAM_MIX} = 0 \<longrightarrow>
        fst res = 0)) \<and>
   length (init_cfg_routes n_sinks (min n_sinks n_sources)) =
     min (unat n_sinks) (unat n_sources) \<and>
   (\<forall>i < min (unat n_sinks) (unat n_sources).
      init_cfg_routes n_sinks (min n_sinks n_sources) ! i =
        \<lparr>sink_pad = of_nat i, sink_stream = 0, source_pad = of_nat i + n_sinks,
         source_stream = 0, route_flags = V4L2_SUBDEV_ROUTE_FL_ACTIVE\<rparr> \<and>
      route_active (init_cfg_routes n_sinks (min n_sinks n_sources) ! i) \<and>
      unat (sink_pad (init_cfg_routes n_sinks (min n_sinks n_sources) ! i)) = i \<and>
      (unat n_sinks + unat n_sources \<le> 2 ^ 32 \<longrightarrow>
       unat (source_pad (init_cfg_routes n_sinks (min n_sinks n_sources) ! i)) =
         i + unat n_sinks))"
proof (intro conjI)
  show "let table = init_cfg_routes (num_sinks (xvip xvsw))
                  (min (num_sinks (xvip xvsw)) (num_sources (xvip xvsw)));
        res = xvsw_init_cfg env tr validate default_format xvsw state
    in (fst res \<noteq> 0 \<longrightarrow> snd res = state) \<and>
       (fst res = 0 \<longrightarrow> routing (snd res) = table) \<and>
       (\<not> kcalloc_fails env tr \<and>
        validate (xvip xvsw) table
          (if tdest_routing xvsw then {V4L2_SUBDEV_ROUTING_NO_1_TO_N}
           else V4L2_SUBDEV_ROUTING_ONLY_1_TO_1 \<union> {V4L2_SUBDEV_ROUTING_NO_STREAM_MIX}) = 0 \<longrightarrow>
        fst res = 0)"
    by (simp add: Let_def xvsw_init_cfg_def uu_xvsw_set_routing_def
                  v4l2_subdev_set_routing_with_fmt_def ENOMEM_def)
  show "let table = init_cfg_routes (num_sinks xsw) (min (num_sinks xsw) (num_sources xsw));
        res = xsw_init_cfg env tr validate default_format xsw state
    in (fst res \<noteq> 0 \<longrightarrow> snd res = state) \<and>
       (fst res = 0 \<longrightarrow> routing (snd res) = table) \<and>
       (\<not> kcalloc_fails env tr \<and>
        validate xsw table
          {V4L2_SUBDEV_ROUTING_NO_N_TO_1, V4L2_SUBDEV_ROUTING_NO_STREAM_MIX} = 0 \<longrightarrow>
        fst res = 0)"
    by (simp add: Let_def xsw_init_cfg_def uu_xsw_set_routing_def
                  v4l2_subdev_set_routing_with_fmt_def ENOMEM_def)
  show "length (init_cfg_routes n_sinks (min n_sinks n_sources)) =
        min (unat n_sinks) (unat n_sources)"
    by (simp add: init_cfg_routes_length unat_min_word)
  show "\<forall>i < min (unat n_sinks) (unat n_sources).
      init_cfg_routes n_sinks (min n_sinks n_sources) ! i =
        \<lparr>sink_pad = of_nat i, sink_stream = 0, source_pad = of_nat i + n_sinks,
         source_stream = 0, route_flags = V4L2_SUBDEV_ROUTE_FL_ACTIVE\<rparr> \<and>
      route_active (init_cfg_routes n_sinks (min n_sinks n_sources) ! i) \<and>
      unat (sink_pad (init_cfg_routes n_sinks (min n_sinks n_sources) ! i)) = i \<and>
      (unat n_sinks + unat n_sources \<le> 2 ^ 32 \<longrightarrow>
       unat (source_pad (init_cfg_routes n_sinks (min n_sinks n_sources) ! i)) =
         i + unat n_sinks)"
  proof (intro allI impI)
    fix i
    assume i: "i < min (unat n_sinks) (unat n_sources)"
    then have i': "i < unat (min n_sinks n_sources)" by (simp add: unat_min_word)
    have nth: "init_cfg_routes n_sinks (min n_sinks n_sources) ! i =
        \<lparr>sink_pad = of_nat i, sink_stream = 0, source_pad = of_nat i + n_sinks,
         source_stream = 0, route_flags = V4L2_SUBDEV_ROUTE_FL_ACTIVE\<rparr>"
      using init_cfg_routes_nth [OF i'] .
    have act: "route_active (init_cfg_routes n_sinks (min n_sinks n_sources) ! i)"
      unfolding nth by (simp add: route_active_def V4L2_SUBDEV_ROUTE_FL_ACTIVE_def)
    have snk: "unat (sink_pad (init_cfg_routes n_sinks (min n_sinks n_sources) ! i)) = i"
      unfolding nth using unat_of_nat_u32 [OF i'] by simp
    have src: "unat n_sinks + unat n_sources \<le> 2 ^ 32 \<longrightarrow>
       unat (source_pad (init_cfg_routes n_sinks (min n_sinks n_sources) ! i)) =
         i + unat n_sinks"
    proof
      assume b: "unat n_sinks + unat n_sources \<le> 2 ^ 32"
      from i have "i < unat n_sources" by simp
      from unat_source_pad [OF this b]
      show "unat (source_pad (init_cfg_routes n_sinks (min n_sinks n_sources) ! i)) =
            i + unat n_sinks"
        unfolding nth by simp
    qed
    from nth act snk src
    show "init_cfg_routes n_sinks (min n_sinks n_sources) ! i =
        \<lparr>sink_pad = of_nat i, sink_stream = 0, source_pad = of_nat i + n_sinks,
         source_stream = 0, route_flags = V4L2_SUBDEV_ROUTE_FL_ACTIVE\<rparr> \<and>
      route_active (init_cfg_routes n_sinks (min n_sinks n_sources) ! i) \<and>
      unat (sink_pad (init_cfg_routes n_sinks (min n_sinks n_sources) ! i)) = i \<and>
      (unat n_sinks + unat n_sources \<le> 2 ^ 32 \<longrightarrow>
       unat (source_pad (init_cfg_routes n_sinks (min n_sinks n_sources) ! i)) =
         i + unat n_sinks)"
      by blast
  qed
qed

theorem init_cfg_default_routing_witness:
  "xvsw_init_cfg ex_env_ok [] ex_validate ()
     \<lparr>xvip = ex_switch None, tdest_routing = False\<rparr> (ex_routing_state []) =
     (0, \<lparr>routing = [ex_route 0 0 2 0, ex_route 1 0 3 0],
          stream_formats = [((0, 0), ()), ((2, 0), ()), ((1, 0), ()), ((3, 0), ())]\<rparr>) \<and>
   routing (snd (xsw_init_cfg ex_env_ok [] ex_validate () (ex_switch None)
                   (ex_routing_state []))) =
     [ex_route 0 0 2 0, ex_route 1 0 3 0] \<and>
   init_cfg_routes 2 (min 2 3) = [ex_route 0 0 2 0, ex_route 1 0 3 0]"
proof -
  have t: "init_cfg_routes 2 2 = [ex_route 0 0 2 0, ex_route 1 0 3 0]"
    by (simp add: init_cfg_routes_def ex_route_def upt_rec)
  have n: "num_sinks (ex_switch None) = 2" "num_sources (ex_switch None) = 3"
    by (simp_all add: ex_switch_def)
  have v: "ex_validate sd [ex_route 0 0 2 0, ex_route 1 0 3 0] d = 0" for sd d
    by (simp add: ex_validate_def ex_route_def)
  have k: "\<not> kcalloc_fails ex_env_ok []" by (simp add: ex_env_ok_def)
  have full: "xvsw_init_cfg ex_env_ok [] ex_validate ()
     \<lparr>xvip = ex_switch None, tdest_routing = False\<rparr> (ex_routing_state []) =
     (0, \<lparr>routing = [ex_route 0 0 2 0, ex_route 1 0 3 0],
          stream_formats = [((0, 0), ()), ((2, 0), ()), ((1, 0), ()), ((3, 0), ())]\<rparr>)"
    by (simp add: xvsw_init_cfg_def uu_xvsw_set_routing_def n t v k
                  v4l2_subdev_set_routing_with_fmt_def ex_routing_state_def)
       (simp add: ex_route_def V4L2_SUBDEV_ROUTE_FL_ACTIVE_def)
  from init_cfg_default_routing
         [of "\<lparr>xvip = ex_switch None, tdest_routing = False\<rparr>" ex_env_ok "[]" ex_validate
             "()" "ex_routing_state []" "ex_switch None" 2 3]
  have "routing (snd (xsw_init_cfg ex_env_ok [] ex_validate () (ex_switch None)
                        (ex_routing_state []))) =
        [ex_route 0 0 2 0, ex_route 1 0 3 0]"
    by (simp add: Let_def n t v k)
  with full t show ?thesis by simp
qed

end
